theory Spec2Isabelle
  imports Complex_Main "HOL-Library.Multiset"
begin

section \<open>Errors and input validation\<close>

text \<open>
  Every \<^verbatim>\<open>throw\<close> of the services is a value: a function that may throw returns
  \<open>error + 'a\<close>, with \<open>Inl\<close> for the thrown error. \<open>PrismaClientKnownRequestError\<close>
  carries the ORM's error code, \<open>OtherError\<close> stands for every thrown value that is
  neither of the named classes.
\<close>

datatype error =
    ValidationError
  | DatabaseError string
  | PrismaClientKnownRequestError string
  | OtherError string

type_synonym 'a result = "error + 'a"

text \<open>
  Modelled from the spec: \<^verbatim>\<open>validateInputs\<close> (\<^verbatim>\<open>../utils/validate\<close>) is not among the
  sources. Following "validate input, then query": each pair \<^verbatim>\<open>[value, schema]\<close> is
  checked, and a pair whose value fails its schema makes the call throw a validation error.
  A pair is given here by the outcome of its schema on its value.
\<close>

definition validateInputs :: "bool list \<Rightarrow> unit result" where
  "validateInputs pairs = (if list_all (\<lambda>ok. ok) pairs then Inr () else Inl ValidationError)"

section \<open>Numbers, strings and the clock of the runtime\<close>

text \<open>
  A number of the language is a double: a finite value, which is a rational number, an
  infinity or \<^verbatim>\<open>NaN\<close>. The result of an arithmetic operation is the double nearest to
  the exact result. A whole number of magnitude at most \<open>2^53\<close> is a double, so an exact
  result of that kind is the result; how the other exact results are rounded is a
  parameter of the model (\<open>rounded\<close>), as are the decimal form of the numbers that are no
  natural numbers below \<open>10^21\<close> (\<open>toString\<close>) and the time zone of the server
  (\<open>timezoneOffset\<close>: local time minus universal time at an instant, in milliseconds).
\<close>

datatype number = Finite rat | PlusInfinity | MinusInfinity | NaN

record runtime =
  timezoneOffset :: "int \<Rightarrow> int"
  rounded :: "rat \<Rightarrow> number"
  toString :: "number \<Rightarrow> string"

definition whole :: "rat \<Rightarrow> bool" where
  "whole q = (of_int \<lfloor>q\<rfloor> = q)"

definition double_of :: "runtime \<Rightarrow> rat \<Rightarrow> number" where
  "double_of rt v = (if whole v \<and> \<bar>v\<bar> \<le> 2 ^ 53 then Finite v else rounded rt v)"

text \<open>\<^verbatim>\<open>x ? a : b\<close>: a number is truthy unless it is zero or \<^verbatim>\<open>NaN\<close>.\<close>

definition truthy :: "number \<Rightarrow> bool" where
  "truthy x = (case x of Finite q \<Rightarrow> q \<noteq> 0 | NaN \<Rightarrow> False | _ \<Rightarrow> True)"

text \<open>\<^verbatim>\<open>x - 1\<close> and \<^verbatim>\<open>n * x\<close> for a natural number \<open>n\<close>.\<close>

definition minus_one :: "runtime \<Rightarrow> number \<Rightarrow> number" where
  "minus_one rt x = (case x of Finite q \<Rightarrow> double_of rt (q - 1) | _ \<Rightarrow> x)"

definition times :: "runtime \<Rightarrow> nat \<Rightarrow> number \<Rightarrow> number" where
  "times rt n x =
     (case x of
        Finite q \<Rightarrow> double_of rt (of_nat n * q)
      | NaN \<Rightarrow> NaN
      | _ \<Rightarrow> if n = 0 then NaN else x)"

text \<open>
  Template strings: \<^verbatim>\<open>${x}\<close> of a natural number below \<open>10^21\<close> is its decimal digits, of
  \<^verbatim>\<open>undefined\<close> the word \<^verbatim>\<open>undefined\<close>.
\<close>

fun show_nat :: "nat \<Rightarrow> string" where
  "show_nat n =
     (if n < 10 then [char_of (48 + n)]
      else show_nat (n div 10) @ [char_of (48 + n mod 10)])"

declare show_nat.simps [simp del]

definition show_number :: "runtime \<Rightarrow> number \<Rightarrow> string" where
  "show_number rt x =
     (case x of
        Finite q \<Rightarrow>
          if whole q \<and> 0 \<le> q \<and> q < 10 ^ 21 then show_nat (nat \<lfloor>q\<rfloor>) else toString rt x
      | _ \<Rightarrow> toString rt x)"

definition show_optional :: "runtime \<Rightarrow> number option \<Rightarrow> string" where
  "show_optional rt page =
     (case page of None \<Rightarrow> ''undefined'' | Some x \<Rightarrow> show_number rt x)"

text \<open>The same for a page that is a natural number or \<^verbatim>\<open>undefined\<close>.\<close>

definition show_page :: "nat option \<Rightarrow> string" where
  "show_page page = (case page of None \<Rightarrow> ''undefined'' | Some n \<Rightarrow> show_nat n)"

definition natural :: "nat option \<Rightarrow> number option" where
  "natural page = map_option (\<lambda>n. Finite (of_nat n)) page"

section \<open>Schemas and constants\<close>

text \<open>
  The Zod schemas and the constants of \<^verbatim>\<open>../constants\<close> are not among the sources; they
  are parameters of the model.
\<close>

record TActionInput =
  in_environmentId :: string
  in_userId :: string
  in_name :: string

record config =
  ZId :: "string \<Rightarrow> bool"
  ZOptionalNumber :: "number option \<Rightarrow> bool"
  ZActionInput :: "TActionInput \<Rightarrow> bool"
  ITEMS_PER_PAGE :: nat
  SERVICES_REVALIDATION_INTERVAL :: nat

section \<open>The framework cache\<close>

text \<open>
  \<^verbatim>\<open>unstable_cache(cb, keyParts, {tags, revalidate})()\<close> of the web framework: a
  keyed store of results. Time is in milliseconds since the epoch, \<open>revalidate\<close> in
  seconds; an entry is stale when its age exceeds \<open>revalidate\<close>.
  \<^item> With no entry under the key the callback runs: a thrown error passes through and
    stores nothing, a returned value is returned and stored (after its JSON round trip
    \<open>json\<close>) under the key with the tags of the call.
  \<^item> An entry that is not stale is returned and the callback does not run.
  \<^item> A stale entry is returned as well, and the callback runs in the background: a value
    it returns replaces the entry, an error it throws is logged and dropped. The state
    after the call is the state after that background run.
\<close>

record cache_options =
  tags :: "string list"
  revalidate :: nat

record 'v cache_entry =
  data :: 'v
  entry_tags :: "string list"
  stored_at :: int

type_synonym 'v cache = "string list \<Rightarrow> 'v cache_entry option"

definition stale :: "cache_options \<Rightarrow> int \<Rightarrow> 'v cache_entry \<Rightarrow> bool" where
  "stale opts now e = (1000 * int (revalidate opts) < now - stored_at e)"

definition unstable_cache ::
  "('v \<Rightarrow> 'v) \<Rightarrow> ('s \<Rightarrow> 'v result \<times> 's) \<Rightarrow> string list \<Rightarrow> cache_options \<Rightarrow> int \<Rightarrow>
   'v cache \<times> 's \<Rightarrow> 'v result \<times> 'v cache \<times> 's" where
  "unstable_cache json cb keyParts opts now st =
     (case st of (c, s) \<Rightarrow>
        (case c keyParts of
           None \<Rightarrow>
             (case cb s of
                (Inl e, s') \<Rightarrow> (Inl e, c, s')
              | (Inr v, s') \<Rightarrow>
                  (Inr v,
                   c(keyParts \<mapsto> \<lparr>data = json v, entry_tags = tags opts, stored_at = now\<rparr>),
                   s'))
         | Some entry \<Rightarrow>
             if \<not> stale opts now entry then (Inr (data entry), c, s)
             else
               (case cb s of
                  (Inl e, s') \<Rightarrow> (Inr (data entry), c, s')
                | (Inr v, s') \<Rightarrow>
                    (Inr (data entry),
                     c(keyParts \<mapsto> \<lparr>data = json v, entry_tags = tags opts, stored_at = now\<rparr>),
                     s'))))"

text \<open>Tag builders of the cache modules that are not among the sources: parameters.\<close>

record cache_tags =
  webhookCache_tag_byId :: "string \<Rightarrow> string"
  actionCache_tag_byPersonId :: "string \<Rightarrow> string"
  actionCache_tag_byEnvironmentId :: "string \<Rightarrow> string"
  actionClassCache_tag_byId :: "string \<Rightarrow> string"
  activePersonCache_tag_byId :: "string \<Rightarrow> string"

section \<open>Access checks\<close>

record webhook =
  wh_id :: string
  wh_environmentId :: string

record attributeClass =
  atc_id :: string
  atc_environmentId :: string

text \<open>
  \<^verbatim>\<open>getWebhook\<close>, \<^verbatim>\<open>getAttributeClass\<close> and \<^verbatim>\<open>hasUserEnvironmentAccess\<close> are services
  outside the sources: they are parameters, each giving the outcome of the call.
\<close>

definition canUserAccessWebhook_key :: "string \<Rightarrow> string \<Rightarrow> string list" where
  "canUserAccessWebhook_key userId webhookId =
     [''canUserAccessWebhook-'' @ userId @ ''-'' @ webhookId]"

definition canUserAccessWebhook_opts :: "config \<Rightarrow> cache_tags \<Rightarrow> string \<Rightarrow> cache_options" where
  "canUserAccessWebhook_opts cfg tg webhookId =
     \<lparr>tags = [webhookCache_tag_byId tg webhookId],
      revalidate = SERVICES_REVALIDATION_INTERVAL cfg\<rparr>"

definition canUserAccessWebhook_fn ::
  "config \<Rightarrow> (string \<Rightarrow> webhook option result) \<Rightarrow> (string \<Rightarrow> string \<Rightarrow> bool result) \<Rightarrow>
   string \<Rightarrow> string \<Rightarrow> bool result" where
  "canUserAccessWebhook_fn cfg getWebhook hasUserEnvironmentAccess userId webhookId =
     (case validateInputs [ZId cfg userId, ZId cfg webhookId] of
        Inl e \<Rightarrow> Inl e
      | Inr _ \<Rightarrow>
          (case getWebhook webhookId of
             Inl e \<Rightarrow> Inl e
           | Inr None \<Rightarrow> Inr False
           | Inr (Some webhook) \<Rightarrow>
               (case hasUserEnvironmentAccess userId (wh_environmentId webhook) of
                  Inl e \<Rightarrow> Inl e
                | Inr hasAccessToEnvironment \<Rightarrow>
                    if \<not> hasAccessToEnvironment then Inr False else Inr True)))"

definition canUserAccessWebhook ::
  "config \<Rightarrow> cache_tags \<Rightarrow> (string \<Rightarrow> webhook option result) \<Rightarrow>
   (string \<Rightarrow> string \<Rightarrow> bool result) \<Rightarrow> int \<Rightarrow> string \<Rightarrow> string \<Rightarrow>
   bool cache \<Rightarrow> bool result \<times> bool cache" where
  "canUserAccessWebhook cfg tg getWebhook hasUserEnvironmentAccess now userId webhookId c =
     (case unstable_cache (\<lambda>v. v)
             (\<lambda>u. (canUserAccessWebhook_fn cfg getWebhook hasUserEnvironmentAccess
                      userId webhookId, u))
             (canUserAccessWebhook_key userId webhookId)
             (canUserAccessWebhook_opts cfg tg webhookId) now (c, ()) of
        (r, c', _) \<Rightarrow> (r, c'))"

definition canUserAccessAttributeClass_key :: "string \<Rightarrow> string \<Rightarrow> string list" where
  "canUserAccessAttributeClass_key userId attributeClassId =
     [''canUserAccessAttributeClass-'' @ userId @ ''-'' @ attributeClassId]"

definition canUserAccessAttributeClass_opts :: "config \<Rightarrow> string \<Rightarrow> cache_options" where
  "canUserAccessAttributeClass_opts cfg attributeClassId =
     \<lparr>tags = [''attributeClasses-'' @ attributeClassId],
      revalidate = SERVICES_REVALIDATION_INTERVAL cfg\<rparr>"

definition canUserAccessAttributeClass_fn ::
  "config \<Rightarrow> (string \<Rightarrow> attributeClass option result) \<Rightarrow>
   (string \<Rightarrow> string \<Rightarrow> bool result) \<Rightarrow> string \<Rightarrow> string \<Rightarrow> bool result" where
  "canUserAccessAttributeClass_fn cfg getAttributeClass hasUserEnvironmentAccess
     userId attributeClassId =
     (case validateInputs [ZId cfg userId, ZId cfg attributeClassId] of
        Inl e \<Rightarrow> Inl e
      | Inr _ \<Rightarrow>
          if userId = [] then Inr False
          else
            (case getAttributeClass attributeClassId of
               Inl e \<Rightarrow> Inl e
             | Inr None \<Rightarrow> Inr False
             | Inr (Some attributeClass) \<Rightarrow>
                 (case hasUserEnvironmentAccess userId (atc_environmentId attributeClass) of
                    Inl e \<Rightarrow> Inl e
                  | Inr hasAccessToEnvironment \<Rightarrow>
                      if \<not> hasAccessToEnvironment then Inr False else Inr True)))"

definition canUserAccessAttributeClass ::
  "config \<Rightarrow> (string \<Rightarrow> attributeClass option result) \<Rightarrow>
   (string \<Rightarrow> string \<Rightarrow> bool result) \<Rightarrow> int \<Rightarrow> string \<Rightarrow> string \<Rightarrow>
   bool cache \<Rightarrow> bool result \<times> bool cache" where
  "canUserAccessAttributeClass cfg getAttributeClass hasUserEnvironmentAccess now
     userId attributeClassId c =
     (case unstable_cache (\<lambda>v. v)
             (\<lambda>u. (canUserAccessAttributeClass_fn cfg getAttributeClass
                      hasUserEnvironmentAccess userId attributeClassId, u))
             (canUserAccessAttributeClass_key userId attributeClassId)
             (canUserAccessAttributeClass_opts cfg attributeClassId) now (c, ()) of
        (r, c', _) \<Rightarrow> (r, c'))"

section \<open>The action tables and the ORM\<close>

text \<open>
  The rows of the tables the action service reads and writes, with the columns the
  sources mention. \<open>a_createdAt\<close> is a time in milliseconds since the epoch.
\<close>

datatype TActionClassType = TypeCode | TypeNoCode | TypeAutomatic

record actionClass =
  ac_id :: string
  ac_name :: string
  ac_type :: TActionClassType
  ac_environmentId :: string

record person =
  p_id :: string
  p_environmentId :: string
  p_userId :: string

record action =
  a_id :: string
  a_createdAt :: int
  a_personId :: string
  a_actionClassId :: string
  a_properties :: "(string \<times> string) list"

text \<open>
  The database behind the ORM: the three tables, the log of the ORM calls that reached
  it, \<open>fault\<close>, the error every such call throws while the database is failing (\<open>None\<close>:
  it works), and \<open>refusal\<close>, the error with which the ORM refuses an argument it does not
  accept (the sources do not show of which class that error is).
\<close>

datatype prisma_op = FindMany | FindFirst | Count | Create

record database =
  actionTable :: "action list"
  actionClassTable :: "actionClass list"
  personTable :: "person list"
  fault :: "error option"
  refusal :: error
  queries :: "prisma_op list"

datatype sortOrder = Asc | Desc

text \<open>
  The \<^verbatim>\<open>where\<close> objects of the service: \<^verbatim>\<open>personId\<close> and \<^verbatim>\<open>actionClassId\<close> filter on
  the row's own columns, \<^verbatim>\<open>person: {id}\<close>, \<^verbatim>\<open>actionClass: {id}\<close> and
  \<^verbatim>\<open>actionClass: {environmentId}\<close> on the related row, \<^verbatim>\<open>createdAt: {gte}\<close> on the date.
\<close>

record actionWhere =
  where_personId :: "string option"
  where_person_id :: "string option"
  where_actionClassId :: "string option"
  where_actionClass_id :: "string option"
  where_actionClass_environmentId :: "string option"
  where_createdAt_gte :: "int option"

definition anyAction :: actionWhere where
  "anyAction =
     \<lparr>where_personId = None, where_person_id = None, where_actionClassId = None,
      where_actionClass_id = None, where_actionClass_environmentId = None,
      where_createdAt_gte = None\<rparr>"

definition find_actionClass :: "database \<Rightarrow> string \<Rightarrow> actionClass option" where
  "find_actionClass d cid = find (\<lambda>c. ac_id c = cid) (actionClassTable d)"

definition find_person :: "database \<Rightarrow> string \<Rightarrow> person option" where
  "find_person d pid = find (\<lambda>p. p_id p = pid) (personTable d)"

definition matches :: "database \<Rightarrow> actionWhere \<Rightarrow> action \<Rightarrow> bool" where
  "matches d w a =
     ((case where_personId w of None \<Rightarrow> True | Some x \<Rightarrow> a_personId a = x) \<and>
      (case where_person_id w of None \<Rightarrow> True
       | Some x \<Rightarrow> (case find_person d (a_personId a) of
                     None \<Rightarrow> False | Some p \<Rightarrow> p_id p = x)) \<and>
      (case where_actionClassId w of None \<Rightarrow> True | Some x \<Rightarrow> a_actionClassId a = x) \<and>
      (case where_actionClass_id w of None \<Rightarrow> True
       | Some x \<Rightarrow> (case find_actionClass d (a_actionClassId a) of
                     None \<Rightarrow> False | Some c \<Rightarrow> ac_id c = x)) \<and>
      (case where_actionClass_environmentId w of None \<Rightarrow> True
       | Some x \<Rightarrow> (case find_actionClass d (a_actionClassId a) of
                     None \<Rightarrow> False | Some c \<Rightarrow> ac_environmentId c = x)) \<and>
      (case where_createdAt_gte w of None \<Rightarrow> True | Some t \<Rightarrow> t \<le> a_createdAt a))"

text \<open>
  \<^verbatim>\<open>orderBy: {createdAt}\<close>: rows with equal dates keep the order of the table.
\<close>

definition orderBy :: "sortOrder option \<Rightarrow> action list \<Rightarrow> action list" where
  "orderBy ord xs =
     (case ord of
        None \<Rightarrow> xs
      | Some Asc \<Rightarrow> sort_key a_createdAt xs
      | Some Desc \<Rightarrow> sort_key (\<lambda>a. - a_createdAt a) xs)"

definition paginate :: "nat option \<Rightarrow> nat option \<Rightarrow> 'a list \<Rightarrow> 'a list" where
  "paginate tk sk xs =
     (let ys = (case sk of None \<Rightarrow> xs | Some k \<Rightarrow> drop k xs)
      in case tk of None \<Rightarrow> ys | Some n \<Rightarrow> take n ys)"

definition prisma_call :: "prisma_op \<Rightarrow> (database \<Rightarrow> 'a) \<Rightarrow> database \<Rightarrow> 'a result \<times> database" where
  "prisma_call op f d =
     (let d' = d\<lparr>queries := queries d @ [op]\<rparr>
      in case fault d of Some e \<Rightarrow> (Inl e, d') | None \<Rightarrow> (Inr (f d), d'))"

text \<open>
  The \<^verbatim>\<open>skip\<close> the ORM accepts: a whole number from 0 that fits a signed integer of 64
  bits. It refuses every other number before it reaches the database.
\<close>

definition accepted_skip :: "number \<Rightarrow> nat option" where
  "accepted_skip x =
     (case x of
        Finite q \<Rightarrow> if whole q \<and> 0 \<le> q \<and> q < 2 ^ 63 then Some (nat \<lfloor>q\<rfloor>) else None
      | _ \<Rightarrow> None)"

text \<open>\<^verbatim>\<open>prisma.action.findMany\<close> with \<^verbatim>\<open>include: {actionClass: true}\<close>.\<close>

definition findMany_rows ::
  "actionWhere \<Rightarrow> sortOrder option \<Rightarrow> nat option \<Rightarrow> nat option \<Rightarrow> database \<Rightarrow>
   (action \<times> actionClass option) list" where
  "findMany_rows w ord tk sk d =
     map (\<lambda>a. (a, find_actionClass d (a_actionClassId a)))
       (paginate tk sk (orderBy ord (filter (matches d w) (actionTable d))))"

definition prisma_action_findMany ::
  "actionWhere \<Rightarrow> sortOrder option \<Rightarrow> nat option \<Rightarrow> number option \<Rightarrow> database \<Rightarrow>
   (action \<times> actionClass option) list result \<times> database" where
  "prisma_action_findMany w ord tk sk d =
     (case sk of
        None \<Rightarrow> prisma_call FindMany (findMany_rows w ord tk None) d
      | Some x \<Rightarrow>
          (case accepted_skip x of
             None \<Rightarrow> (Inl (refusal d), d)
           | Some k \<Rightarrow> prisma_call FindMany (findMany_rows w ord tk (Some k)) d))"

definition prisma_action_count :: "actionWhere \<Rightarrow> database \<Rightarrow> nat result \<times> database" where
  "prisma_action_count w =
     prisma_call Count (\<lambda>d. length (filter (matches d w) (actionTable d)))"

text \<open>\<^verbatim>\<open>prisma.action.findFirst\<close> with \<^verbatim>\<open>select: {createdAt: true}\<close>.\<close>

definition prisma_action_findFirst ::
  "actionWhere \<Rightarrow> sortOrder option \<Rightarrow> database \<Rightarrow> int option result \<times> database" where
  "prisma_action_findFirst w ord =
     prisma_call FindFirst
       (\<lambda>d. case orderBy ord (filter (matches d w) (actionTable d)) of
               [] \<Rightarrow> None
             | a # _ \<Rightarrow> Some (a_createdAt a))"

text \<open>
  \<^verbatim>\<open>prisma.action.create\<close> connecting the person with the unique pair
  \<^verbatim>\<open>environmentId_userId\<close> and the action class with the given id: a record to connect
  that does not exist is the known request error P2025. The new row gets a fresh id
  \<open>newId\<close>, the current time and empty properties.
\<close>

definition prisma_action_create ::
  "string \<Rightarrow> string \<Rightarrow> string \<Rightarrow> string \<Rightarrow> int \<Rightarrow> database \<Rightarrow> action result \<times> database" where
  "prisma_action_create environmentId userId actionClassId newId now d =
     (let d' = d\<lparr>queries := queries d @ [Create]\<rparr>
      in case fault d of
           Some e \<Rightarrow> (Inl e, d')
         | None \<Rightarrow>
             (case find (\<lambda>p. p_environmentId p = environmentId \<and> p_userId p = userId)
                     (personTable d) of
                None \<Rightarrow> (Inl (PrismaClientKnownRequestError ''P2025''), d')
              | Some p \<Rightarrow>
                  (case find_actionClass d actionClassId of
                     None \<Rightarrow> (Inl (PrismaClientKnownRequestError ''P2025''), d')
                   | Some c \<Rightarrow>
                       (let row = \<lparr>a_id = newId, a_createdAt = now, a_personId = p_id p,
                                   a_actionClassId = ac_id c, a_properties = []\<rparr>
                        in (Inr row, d'\<lparr>actionTable := actionTable d' @ [row]\<rparr>)))))"

section \<open>The action service\<close>

text \<open>
  A \<^verbatim>\<open>TAction\<close>. Its date is a \<^verbatim>\<open>Date\<close> object or, after the JSON round trip of the
  cache, the string of the same instant.
\<close>

datatype date = DateObj int | DateStr int

record TAction =
  t_id :: string
  t_createdAt :: date
  t_personId :: string
  t_properties :: "(string \<times> string) list"
  t_actionClass :: "actionClass option"

definition json_date :: "date \<Rightarrow> date" where
  "json_date dt = (case dt of DateObj t \<Rightarrow> DateStr t | DateStr t \<Rightarrow> DateStr t)"

definition json_TActions :: "TAction list \<Rightarrow> TAction list" where
  "json_TActions = map (\<lambda>a. a\<lparr>t_createdAt := json_date (t_createdAt a)\<rparr>)"

text \<open>
  Modelled from the spec: \<^verbatim>\<open>formatDateFields\<close> (\<^verbatim>\<open>../utils/datetime\<close>) is not among the
  sources. It deserializes the date fields of the schema: a \<^verbatim>\<open>createdAt\<close> that is a string
  becomes the \<^verbatim>\<open>Date\<close> of that string.
\<close>

definition formatDateFields :: "TAction \<Rightarrow> TAction" where
  "formatDateFields a =
     a\<lparr>t_createdAt := (case t_createdAt a of DateStr t \<Rightarrow> DateObj t | DateObj t \<Rightarrow> DateObj t)\<rparr>"

text \<open>The \<^verbatim>\<open>catch\<close> block of the list functions and of \<^verbatim>\<open>createAction\<close>.\<close>

definition catch_prisma :: "error \<Rightarrow> error" where
  "catch_prisma e =
     (case e of
        PrismaClientKnownRequestError _ \<Rightarrow> DatabaseError ''Database operation failed''
      | _ \<Rightarrow> e)"

text \<open>
  \<^verbatim>\<open>page ? ITEMS_PER_PAGE : undefined\<close> and \<^verbatim>\<open>page ? ITEMS_PER_PAGE * (page - 1) : undefined\<close>,
  for the page a caller passes: \<^verbatim>\<open>undefined\<close> or any number.
\<close>

definition take_of :: "config \<Rightarrow> number option \<Rightarrow> nat option" where
  "take_of cfg page =
     (case page of None \<Rightarrow> None
      | Some p \<Rightarrow> if truthy p then Some (ITEMS_PER_PAGE cfg) else None)"

definition skip_of :: "runtime \<Rightarrow> config \<Rightarrow> number option \<Rightarrow> number option" where
  "skip_of rt cfg page =
     (case page of None \<Rightarrow> None
      | Some p \<Rightarrow>
          if truthy p then Some (times rt (ITEMS_PER_PAGE cfg) (minus_one rt p)) else None)"

definition toTAction :: "action \<times> actionClass option \<Rightarrow> TAction" where
  "toTAction row =
     (case row of (action, cls) \<Rightarrow>
        \<lparr>t_id = a_id action, t_createdAt = DateObj (a_createdAt action),
         t_personId = a_personId action, t_properties = a_properties action,
         t_actionClass = cls\<rparr>)"

text \<open>
  The callbacks of \<^verbatim>\<open>getActionsByPersonId\<close> and \<^verbatim>\<open>getActionsByEnvironmentId\<close> differ in
  the \<^verbatim>\<open>where\<close> object only (one shapes the rows with \<^verbatim>\<open>map\<close>, the other pushes them
  one by one): \<open>list_fn\<close> is their common body.
\<close>

definition list_fn ::
  "runtime \<Rightarrow> config \<Rightarrow> string \<Rightarrow> number option \<Rightarrow> actionWhere \<Rightarrow> database \<Rightarrow>
   TAction list result \<times> database" where
  "list_fn rt cfg ident page w d =
     (case validateInputs [ZId cfg ident, ZOptionalNumber cfg page] of
        Inl e \<Rightarrow> (Inl e, d)
      | Inr _ \<Rightarrow>
          (case prisma_action_findMany w (Some Desc) (take_of cfg page) (skip_of rt cfg page) d of
             (Inl e, d') \<Rightarrow> (Inl (catch_prisma e), d')
           | (Inr actionsPrisma, d') \<Rightarrow> (Inr (map toTAction actionsPrisma), d')))"

definition deserialize ::
  "TAction list result \<times> 's \<Rightarrow> TAction list result \<times> 's" where
  "deserialize r =
     (case r of
        (Inl e, st) \<Rightarrow> (Inl e, st)
      | (Inr actions, st) \<Rightarrow> (Inr (map formatDateFields actions), st))"

definition getActionsByPersonId_key :: "string \<Rightarrow> string \<Rightarrow> string list" where
  "getActionsByPersonId_key personId page =
     [''getActionsByPersonId-'' @ personId @ ''-'' @ page]"

definition getActionsByPersonId_opts :: "config \<Rightarrow> cache_tags \<Rightarrow> string \<Rightarrow> cache_options" where
  "getActionsByPersonId_opts cfg tg personId =
     \<lparr>tags = [actionCache_tag_byPersonId tg personId],
      revalidate = SERVICES_REVALIDATION_INTERVAL cfg\<rparr>"

definition getActionsByPersonId_fn ::
  "runtime \<Rightarrow> config \<Rightarrow> string \<Rightarrow> number option \<Rightarrow> database \<Rightarrow>
   TAction list result \<times> database" where
  "getActionsByPersonId_fn rt cfg personId page =
     list_fn rt cfg personId page
       (anyAction\<lparr>where_person_id := Some personId\<rparr>)"

definition getActionsByPersonId ::
  "runtime \<Rightarrow> config \<Rightarrow> cache_tags \<Rightarrow> int \<Rightarrow> string \<Rightarrow> number option \<Rightarrow>
   TAction list cache \<times> database \<Rightarrow> TAction list result \<times> TAction list cache \<times> database" where
  "getActionsByPersonId rt cfg tg now personId page st =
     deserialize
       (unstable_cache json_TActions (getActionsByPersonId_fn rt cfg personId page)
          (getActionsByPersonId_key personId (show_optional rt page))
          (getActionsByPersonId_opts cfg tg personId) now st)"

definition getActionsByEnvironmentId_key :: "string \<Rightarrow> string \<Rightarrow> string list" where
  "getActionsByEnvironmentId_key environmentId page =
     [''getActionsByEnvironmentId-'' @ environmentId @ ''-'' @ page]"

definition getActionsByEnvironmentId_opts ::
  "config \<Rightarrow> cache_tags \<Rightarrow> string \<Rightarrow> cache_options" where
  "getActionsByEnvironmentId_opts cfg tg environmentId =
     \<lparr>tags = [actionCache_tag_byEnvironmentId tg environmentId],
      revalidate = SERVICES_REVALIDATION_INTERVAL cfg\<rparr>"

definition getActionsByEnvironmentId_fn ::
  "runtime \<Rightarrow> config \<Rightarrow> string \<Rightarrow> number option \<Rightarrow> database \<Rightarrow>
   TAction list result \<times> database" where
  "getActionsByEnvironmentId_fn rt cfg environmentId page =
     list_fn rt cfg environmentId page
       (anyAction\<lparr>where_actionClass_environmentId := Some environmentId\<rparr>)"

definition getActionsByEnvironmentId ::
  "runtime \<Rightarrow> config \<Rightarrow> cache_tags \<Rightarrow> int \<Rightarrow> string \<Rightarrow> number option \<Rightarrow>
   TAction list cache \<times> database \<Rightarrow> TAction list result \<times> TAction list cache \<times> database" where
  "getActionsByEnvironmentId rt cfg tg now environmentId page st =
     deserialize
       (unstable_cache json_TActions (getActionsByEnvironmentId_fn rt cfg environmentId page)
          (getActionsByEnvironmentId_key environmentId (show_optional rt page))
          (getActionsByEnvironmentId_opts cfg tg environmentId) now st)"

text \<open>
  \<^verbatim>\<open>createAction\<close>. The services \<^verbatim>\<open>getActionClassByEnvironmentIdAndName\<close>,
  \<^verbatim>\<open>createActionClass\<close> and \<^verbatim>\<open>getIsPersonMonthlyActive\<close> are outside the sources: they
  are parameters acting on the database. The state of a write is the database and the
  list of the cache tags revalidated so far.
\<close>

record actionClassInput =
  aci_name :: string
  aci_type :: TActionClassType
  aci_environmentId :: string

record world =
  db :: database
  revalidatedTags :: "string list"

definition revalidateTag :: "string \<Rightarrow> string list \<Rightarrow> string list" where
  "revalidateTag t ts = ts @ [t]"

text \<open>
  Modelled from the spec: the \<^verbatim>\<open>revalidate\<close> functions of \<^verbatim>\<open>actionCache\<close> and
  \<^verbatim>\<open>activePersonCache\<close> are not among the sources. Following "invalidate specific tags on
  writes", each revalidates the tag of every entity it is given.
\<close>

definition actionCache_revalidate ::
  "cache_tags \<Rightarrow> string \<Rightarrow> string \<Rightarrow> string list \<Rightarrow> string list" where
  "actionCache_revalidate tg environmentId personId ts =
     revalidateTag (actionCache_tag_byPersonId tg personId)
       (revalidateTag (actionCache_tag_byEnvironmentId tg environmentId) ts)"

definition activePersonCache_revalidate :: "cache_tags \<Rightarrow> string \<Rightarrow> string list \<Rightarrow> string list" where
  "activePersonCache_revalidate tg personId ts =
     revalidateTag (activePersonCache_tag_byId tg personId) ts"

record services =
  getActionClassByEnvironmentIdAndName ::
    "string \<Rightarrow> string \<Rightarrow> database \<Rightarrow> actionClass option result \<times> database"
  createActionClass ::
    "string \<Rightarrow> actionClassInput \<Rightarrow> database \<Rightarrow> actionClass result \<times> database"
  getIsPersonMonthlyActive :: "string \<Rightarrow> database \<Rightarrow> bool result \<times> database"

definition createAction_try ::
  "cache_tags \<Rightarrow> services \<Rightarrow> string \<Rightarrow> int \<Rightarrow> TActionInput \<Rightarrow> world \<Rightarrow> TAction result \<times> world" where
  "createAction_try tg sv newId now input w =
     (let environmentId = in_environmentId input;
          name = in_name input;
          userId = in_userId input;
          actionType =
            (if name = ''Exit Intent (Desktop)'' \<or> name = ''50% Scroll''
             then TypeAutomatic else TypeCode)
      in case getActionClassByEnvironmentIdAndName sv environmentId name (db w) of
           (Inl e, d1) \<Rightarrow> (Inl e, w\<lparr>db := d1\<rparr>)
         | (Inr found, d1) \<Rightarrow>
             (case (case found of
                      Some c \<Rightarrow> (Inr c, d1)
                    | None \<Rightarrow>
                        createActionClass sv environmentId
                          \<lparr>aci_name = name, aci_type = actionType,
                           aci_environmentId = environmentId\<rparr> d1) of
                (Inl e, d2) \<Rightarrow> (Inl e, w\<lparr>db := d2\<rparr>)
              | (Inr actionClass, d2) \<Rightarrow>
                  (case prisma_action_create environmentId userId (ac_id actionClass)
                          newId now d2 of
                     (Inl e, d3) \<Rightarrow> (Inl e, w\<lparr>db := d3\<rparr>)
                   | (Inr action, d3) \<Rightarrow>
                       (case getIsPersonMonthlyActive sv (a_personId action) d3 of
                          (Inl e, d4) \<Rightarrow> (Inl e, w\<lparr>db := d4\<rparr>)
                        | (Inr isPersonMonthlyActive, d4) \<Rightarrow>
                            (let ts1 =
                                   (if \<not> isPersonMonthlyActive
                                    then activePersonCache_revalidate tg (a_personId action)
                                           (revalidatedTags w)
                                    else revalidatedTags w);
                                 ts2 = actionCache_revalidate tg environmentId
                                         (a_personId action) ts1
                             in (Inr \<lparr>t_id = a_id action,
                                      t_createdAt = DateObj (a_createdAt action),
                                      t_personId = a_personId action,
                                      t_properties = a_properties action,
                                      t_actionClass = Some actionClass\<rparr>,
                                 \<lparr>db = d4, revalidatedTags = ts2\<rparr>))))))"

definition createAction ::
  "config \<Rightarrow> cache_tags \<Rightarrow> services \<Rightarrow> string \<Rightarrow> int \<Rightarrow> TActionInput \<Rightarrow> world \<Rightarrow>
   TAction result \<times> world" where
  "createAction cfg tg sv newId now input w =
     (case validateInputs [ZActionInput cfg input] of
        Inl e \<Rightarrow> (Inl e, w)
      | Inr _ \<Rightarrow>
          (case createAction_try tg sv newId now input w of
             (Inl e, w') \<Rightarrow> (Inl (catch_prisma e), w')
           | (Inr a, w') \<Rightarrow> (Inr a, w')))"

subsection \<open>Counts in a time window\<close>

text \<open>
  The callbacks of the count functions: validation, one \<^verbatim>\<open>prisma.action.count\<close>, and a
  \<^verbatim>\<open>catch\<close> that throws the error again as it is. \<open>now\<close> is the clock (\<^verbatim>\<open>Date.now()\<close>).
\<close>

definition actionClass_opts :: "config \<Rightarrow> cache_tags \<Rightarrow> string \<Rightarrow> cache_options" where
  "actionClass_opts cfg tg actionClassId =
     \<lparr>tags = [actionClassCache_tag_byId tg actionClassId],
      revalidate = SERVICES_REVALIDATION_INTERVAL cfg\<rparr>"

definition key1 :: "string \<Rightarrow> string \<Rightarrow> string list" where
  "key1 name a = [name @ ''-'' @ a]"

definition key2 :: "string \<Rightarrow> string \<Rightarrow> string \<Rightarrow> string list" where
  "key2 name a b = [name @ ''-'' @ a @ ''-'' @ b]"

definition getActionCountInLastHour_fn ::
  "config \<Rightarrow> int \<Rightarrow> string \<Rightarrow> database \<Rightarrow> nat result \<times> database" where
  "getActionCountInLastHour_fn cfg now actionClassId d =
     (case validateInputs [ZId cfg actionClassId] of
        Inl e \<Rightarrow> (Inl e, d)
      | Inr _ \<Rightarrow>
          prisma_action_count
            (anyAction\<lparr>where_actionClassId := Some actionClassId,
                       where_createdAt_gte := Some (now - 60 * 60 * 1000)\<rparr>) d)"

definition getActionCountInLastHour ::
  "config \<Rightarrow> cache_tags \<Rightarrow> int \<Rightarrow> string \<Rightarrow> nat cache \<times> database \<Rightarrow>
   nat result \<times> nat cache \<times> database" where
  "getActionCountInLastHour cfg tg now actionClassId =
     unstable_cache (\<lambda>v. v) (getActionCountInLastHour_fn cfg now actionClassId)
       (key1 ''getActionCountInLastHour'' actionClassId)
       (actionClass_opts cfg tg actionClassId) now"

definition getActionCountInLast24Hours_fn ::
  "config \<Rightarrow> int \<Rightarrow> string \<Rightarrow> database \<Rightarrow> nat result \<times> database" where
  "getActionCountInLast24Hours_fn cfg now actionClassId d =
     (case validateInputs [ZId cfg actionClassId] of
        Inl e \<Rightarrow> (Inl e, d)
      | Inr _ \<Rightarrow>
          prisma_action_count
            (anyAction\<lparr>where_actionClassId := Some actionClassId,
                       where_createdAt_gte := Some (now - 24 * 60 * 60 * 1000)\<rparr>) d)"

definition getActionCountInLast24Hours ::
  "config \<Rightarrow> cache_tags \<Rightarrow> int \<Rightarrow> string \<Rightarrow> nat cache \<times> database \<Rightarrow>
   nat result \<times> nat cache \<times> database" where
  "getActionCountInLast24Hours cfg tg now actionClassId =
     unstable_cache (\<lambda>v. v) (getActionCountInLast24Hours_fn cfg now actionClassId)
       (key1 ''getActionCountInLast24Hours'' actionClassId)
       (actionClass_opts cfg tg actionClassId) now"

definition getActionCountInLast7Days_fn ::
  "config \<Rightarrow> int \<Rightarrow> string \<Rightarrow> database \<Rightarrow> nat result \<times> database" where
  "getActionCountInLast7Days_fn cfg now actionClassId d =
     (case validateInputs [ZId cfg actionClassId] of
        Inl e \<Rightarrow> (Inl e, d)
      | Inr _ \<Rightarrow>
          prisma_action_count
            (anyAction\<lparr>where_actionClassId := Some actionClassId,
                       where_createdAt_gte := Some (now - 7 * 24 * 60 * 60 * 1000)\<rparr>) d)"

definition getActionCountInLast7Days ::
  "config \<Rightarrow> cache_tags \<Rightarrow> int \<Rightarrow> string \<Rightarrow> nat cache \<times> database \<Rightarrow>
   nat result \<times> nat cache \<times> database" where
  "getActionCountInLast7Days cfg tg now actionClassId =
     unstable_cache (\<lambda>v. v) (getActionCountInLast7Days_fn cfg now actionClassId)
       (key1 ''getActionCountInLast7Days'' actionClassId)
       (actionClass_opts cfg tg actionClassId) now"

text \<open>
  The start dates of \<^verbatim>\<open>./utils\<close> are not among the sources: each is a parameter, a
  function of the clock.
\<close>

record startDates =
  getStartDateOfLastWeek :: "int \<Rightarrow> int"
  getStartDateOfLastMonth :: "int \<Rightarrow> int"
  getStartDateOfLastQuarter :: "int \<Rightarrow> int"

text \<open>
  The callbacks of \<^verbatim>\<open>getActionCountInLastQuarter\<close>, \<^verbatim>\<open>getActionCountInLastMonth\<close> and
  \<^verbatim>\<open>getActionCountInLastWeek\<close> differ in the start date only: \<open>count_since_fn\<close> is their
  common body, with the \<^verbatim>\<open>where\<close> object \<^verbatim>\<open>{personId, actionClass: {id}, createdAt: {gte}}\<close>.
\<close>

definition personActions :: "string \<Rightarrow> string \<Rightarrow> actionWhere" where
  "personActions actionClassId personId =
     anyAction\<lparr>where_personId := Some personId, where_actionClass_id := Some actionClassId\<rparr>"

definition count_since_fn ::
  "config \<Rightarrow> int \<Rightarrow> string \<Rightarrow> string \<Rightarrow> database \<Rightarrow> nat result \<times> database" where
  "count_since_fn cfg start actionClassId personId d =
     (case validateInputs [ZId cfg actionClassId, ZId cfg personId] of
        Inl e \<Rightarrow> (Inl e, d)
      | Inr _ \<Rightarrow>
          prisma_action_count
            ((personActions actionClassId personId)\<lparr>where_createdAt_gte := Some start\<rparr>) d)"

definition getActionCountInLastQuarter ::
  "config \<Rightarrow> cache_tags \<Rightarrow> startDates \<Rightarrow> int \<Rightarrow> string \<Rightarrow> string \<Rightarrow> nat cache \<times> database \<Rightarrow>
   nat result \<times> nat cache \<times> database" where
  "getActionCountInLastQuarter cfg tg sd now actionClassId personId =
     unstable_cache (\<lambda>v. v)
       (count_since_fn cfg (getStartDateOfLastQuarter sd now) actionClassId personId)
       (key2 ''getActionCountInLastQuarter'' actionClassId personId)
       (actionClass_opts cfg tg actionClassId) now"

definition getActionCountInLastMonth ::
  "config \<Rightarrow> cache_tags \<Rightarrow> startDates \<Rightarrow> int \<Rightarrow> string \<Rightarrow> string \<Rightarrow> nat cache \<times> database \<Rightarrow>
   nat result \<times> nat cache \<times> database" where
  "getActionCountInLastMonth cfg tg sd now actionClassId personId =
     unstable_cache (\<lambda>v. v)
       (count_since_fn cfg (getStartDateOfLastMonth sd now) actionClassId personId)
       (key2 ''getActionCountInLastMonth'' actionClassId personId)
       (actionClass_opts cfg tg actionClassId) now"

definition getActionCountInLastWeek ::
  "config \<Rightarrow> cache_tags \<Rightarrow> startDates \<Rightarrow> int \<Rightarrow> string \<Rightarrow> string \<Rightarrow> nat cache \<times> database \<Rightarrow>
   nat result \<times> nat cache \<times> database" where
  "getActionCountInLastWeek cfg tg sd now actionClassId personId =
     unstable_cache (\<lambda>v. v)
       (count_since_fn cfg (getStartDateOfLastWeek sd now) actionClassId personId)
       (key2 ''getActionCountInLastWeek'' actionClassId personId)
       (actionClass_opts cfg tg actionClassId) now"

subsection \<open>Occurrences\<close>

definition getTotalOccurrencesForAction_fn ::
  "config \<Rightarrow> string \<Rightarrow> string \<Rightarrow> database \<Rightarrow> nat result \<times> database" where
  "getTotalOccurrencesForAction_fn cfg actionClassId personId d =
     (case validateInputs [ZId cfg actionClassId, ZId cfg personId] of
        Inl e \<Rightarrow> (Inl e, d)
      | Inr _ \<Rightarrow> prisma_action_count (personActions actionClassId personId) d)"

definition getTotalOccurrencesForAction ::
  "config \<Rightarrow> cache_tags \<Rightarrow> int \<Rightarrow> string \<Rightarrow> string \<Rightarrow> nat cache \<times> database \<Rightarrow>
   nat result \<times> nat cache \<times> database" where
  "getTotalOccurrencesForAction cfg tg now actionClassId personId =
     unstable_cache (\<lambda>v. v) (getTotalOccurrencesForAction_fn cfg actionClassId personId)
       (key2 ''getTotalOccurrencesForAction'' actionClassId personId)
       (actionClass_opts cfg tg actionClassId) now"

text \<open>
  \<^verbatim>\<open>differenceInDays\<close> of the date library works on what the local clock reads at the two
  instants (\<open>localTime\<close>, in milliseconds): it compares the two readings, takes the
  difference of their calendar days, moves the left reading back by that many days and
  takes one day off when the last day is not full. A reading that a clock change skips is
  taken as it reads.
\<close>

definition localTime :: "runtime \<Rightarrow> int \<Rightarrow> int" where
  "localTime rt t = t + timezoneOffset rt t"

definition compareLocalAsc :: "int \<Rightarrow> int \<Rightarrow> int" where
  "compareLocalAsc l r = (if l < r then - 1 else if r < l then 1 else 0)"

definition differenceInCalendarDays :: "int \<Rightarrow> int \<Rightarrow> int" where
  "differenceInCalendarDays l r = l div 86400000 - r div 86400000"

definition differenceInDays :: "runtime \<Rightarrow> int \<Rightarrow> int \<Rightarrow> int" where
  "differenceInDays rt dateLeft dateRight =
     (let l = localTime rt dateLeft;
          r = localTime rt dateRight;
          sign = compareLocalAsc l r;
          difference = \<bar>differenceInCalendarDays l r\<bar>;
          l' = l - sign * difference * 86400000;
          isLastDayNotFull = (if compareLocalAsc l' r = - sign then 1 else 0)
      in sign * (difference - isLastDayNotFull))"

text \<open>
  The callbacks of \<^verbatim>\<open>getLastOccurrenceDaysAgo\<close> and \<^verbatim>\<open>getFirstOccurrenceDaysAgo\<close> differ in
  the sort order only: \<open>occurrence_fn\<close> is their common body.
\<close>

definition occurrence_fn ::
  "runtime \<Rightarrow> config \<Rightarrow> sortOrder \<Rightarrow> int \<Rightarrow> string \<Rightarrow> string \<Rightarrow> database \<Rightarrow>
   int option result \<times> database" where
  "occurrence_fn rt cfg ord now actionClassId personId d =
     (case validateInputs [ZId cfg actionClassId, ZId cfg personId] of
        Inl e \<Rightarrow> (Inl e, d)
      | Inr _ \<Rightarrow>
          (case prisma_action_findFirst (personActions actionClassId personId) (Some ord) d of
             (Inl e, d') \<Rightarrow> (Inl e, d')
           | (Inr None, d') \<Rightarrow> (Inr None, d')
           | (Inr (Some createdAt), d') \<Rightarrow> (Inr (Some (differenceInDays rt now createdAt)), d')))"

definition getLastOccurrenceDaysAgo ::
  "runtime \<Rightarrow> config \<Rightarrow> cache_tags \<Rightarrow> int \<Rightarrow> string \<Rightarrow> string \<Rightarrow>
   int option cache \<times> database \<Rightarrow> int option result \<times> int option cache \<times> database" where
  "getLastOccurrenceDaysAgo rt cfg tg now actionClassId personId =
     unstable_cache (\<lambda>v. v) (occurrence_fn rt cfg Desc now actionClassId personId)
       (key2 ''getLastOccurrenceDaysAgo'' actionClassId personId)
       (actionClass_opts cfg tg actionClassId) now"

definition getFirstOccurrenceDaysAgo ::
  "runtime \<Rightarrow> config \<Rightarrow> cache_tags \<Rightarrow> int \<Rightarrow> string \<Rightarrow> string \<Rightarrow>
   int option cache \<times> database \<Rightarrow> int option result \<times> int option cache \<times> database" where
  "getFirstOccurrenceDaysAgo rt cfg tg now actionClassId personId =
     unstable_cache (\<lambda>v. v) (occurrence_fn rt cfg Asc now actionClassId personId)
       (key2 ''getFirstOccurrenceDaysAgo'' actionClassId personId)
       (actionClass_opts cfg tg actionClassId) now"

section \<open>The free-limit event\<close>

text \<open>
  \<^verbatim>\<open>capturePosthogEnvironmentEvent\<close> is outside the sources: a parameter acting on the
  state \<open>'e\<close> of the analytics service. The call passes no tags.
\<close>

datatype plan = InAppSurvey | UserTargeting

definition show_plan :: "plan \<Rightarrow> string" where
  "show_plan p = (case p of InAppSurvey \<Rightarrow> ''inAppSurvey'' | UserTargeting \<Rightarrow> ''userTargeting'')"

definition sendFreeLimitReachedEventToPosthogBiWeekly_key :: "string \<Rightarrow> plan \<Rightarrow> string list" where
  "sendFreeLimitReachedEventToPosthogBiWeekly_key environmentId p =
     [''sendFreeLimitReachedEventToPosthogBiWeekly-'' @ show_plan p @ ''-'' @ environmentId]"

definition sendFreeLimitReachedEventToPosthogBiWeekly_opts :: cache_options where
  "sendFreeLimitReachedEventToPosthogBiWeekly_opts = \<lparr>tags = [], revalidate = 60 * 60 * 24 * 15\<rparr>"

definition sendFreeLimitReachedEventToPosthogBiWeekly ::
  "(string \<Rightarrow> string \<Rightarrow> plan \<Rightarrow> 'e \<Rightarrow> unit result \<times> 'e) \<Rightarrow> int \<Rightarrow> string \<Rightarrow> plan \<Rightarrow>
   string cache \<times> 'e \<Rightarrow> string result \<times> string cache \<times> 'e" where
  "sendFreeLimitReachedEventToPosthogBiWeekly capturePosthogEnvironmentEvent now
     environmentId p =
     unstable_cache (\<lambda>v. v)
       (\<lambda>s. case capturePosthogEnvironmentEvent environmentId ''free limit reached'' p s of
               (Inl e, s') \<Rightarrow> (Inl e, s')
             | (Inr _, s') \<Rightarrow> (Inr ''success'', s'))
       (sendFreeLimitReachedEventToPosthogBiWeekly_key environmentId p)
       sendFreeLimitReachedEventToPosthogBiWeekly_opts now"

section \<open>Example data\<close>

text \<open>
  A configuration, tag builders, services and a small database, used to run the
  operations on concrete inputs. The example schema for ids accepts the non-empty strings
  without a hyphen, the one for the page every number but \<^verbatim>\<open>NaN\<close>.
\<close>

definition example_config :: config where
  "example_config =
     \<lparr>ZId = (\<lambda>s. s \<noteq> [] \<and> CHR ''-'' \<notin> set s),
      ZOptionalNumber = (\<lambda>page. page \<noteq> Some NaN),
      ZActionInput = (\<lambda>i. in_environmentId i \<noteq> [] \<and> in_name i \<noteq> []),
      ITEMS_PER_PAGE = 2,
      SERVICES_REVALIDATION_INTERVAL = 1800\<rparr>"

text \<open>
  The example runtime is in universal time; the values the examples compute are doubles,
  so its rounding leaves them as they are, and it renders the numbers the examples use.
\<close>

definition example_runtime :: runtime where
  "example_runtime =
     \<lparr>timezoneOffset = (\<lambda>t. 0),
      rounded = Finite,
      toString =
        (\<lambda>x. case x of
               Finite q \<Rightarrow> if q = 1 / 2 then ''0.5'' else ''4611686018427387904''
             | PlusInfinity \<Rightarrow> ''Infinity''
             | MinusInfinity \<Rightarrow> ''-Infinity''
             | NaN \<Rightarrow> ''NaN'')\<rparr>"

definition example_tags :: cache_tags where
  "example_tags =
     \<lparr>webhookCache_tag_byId = (\<lambda>i. ''webhooks-'' @ i),
      actionCache_tag_byPersonId = (\<lambda>i. ''persons-'' @ i @ ''-actions''),
      actionCache_tag_byEnvironmentId = (\<lambda>i. ''environments-'' @ i @ ''-actions''),
      actionClassCache_tag_byId = (\<lambda>i. ''actionClasses-'' @ i),
      activePersonCache_tag_byId = (\<lambda>i. ''activePerson-'' @ i)\<rparr>"

definition example_getWebhook :: "string \<Rightarrow> webhook option result" where
  "example_getWebhook i =
     (if i = ''wh1'' then Inr (Some \<lparr>wh_id = ''wh1'', wh_environmentId = ''env1''\<rparr>)
      else Inr None)"

definition example_getAttributeClass :: "string \<Rightarrow> attributeClass option result" where
  "example_getAttributeClass i =
     (if i = ''atc1'' then Inr (Some \<lparr>atc_id = ''atc1'', atc_environmentId = ''env2''\<rparr>)
      else Inr None)"

definition example_access :: "string \<Rightarrow> string \<Rightarrow> bool result" where
  "example_access userId environmentId = Inr (userId = ''user1'' \<and> environmentId = ''env1'')"

definition example_no_access :: "string \<Rightarrow> string \<Rightarrow> bool result" where
  "example_no_access userId environmentId = Inr False"

definition example_now :: int where
  "example_now = 10000000000"

definition example_startDates :: startDates where
  "example_startDates =
     \<lparr>getStartDateOfLastWeek = (\<lambda>now. now - 7 * 86400000),
      getStartDateOfLastMonth = (\<lambda>now. now - 30 * 86400000),
      getStartDateOfLastQuarter = (\<lambda>now. now - 90 * 86400000)\<rparr>"

definition example_action :: "string \<Rightarrow> int \<Rightarrow> string \<Rightarrow> string \<Rightarrow> action" where
  "example_action i ago personId actionClassId =
     \<lparr>a_id = i, a_createdAt = example_now - ago, a_personId = personId,
      a_actionClassId = actionClassId, a_properties = []\<rparr>"

definition example_db :: database where
  "example_db =
     \<lparr>actionTable =
        [example_action ''a1'' 7200000 ''p1'' ''ac1'',
         example_action ''a2'' 1000 ''p1'' ''ac1'',
         example_action ''a3'' 172800000 ''p2'' ''ac1'',
         example_action ''a4'' 864000000 ''p1'' ''ac1'',
         example_action ''a5'' 5000 ''p1'' ''ac2''],
      actionClassTable =
        [\<lparr>ac_id = ''ac1'', ac_name = ''Sign Up'', ac_type = TypeCode,
          ac_environmentId = ''env1''\<rparr>,
         \<lparr>ac_id = ''ac2'', ac_name = ''50% Scroll'', ac_type = TypeAutomatic,
          ac_environmentId = ''env2''\<rparr>],
      personTable =
        [\<lparr>p_id = ''p1'', p_environmentId = ''env1'', p_userId = ''user1''\<rparr>,
         \<lparr>p_id = ''p2'', p_environmentId = ''env1'', p_userId = ''user2''\<rparr>],
      fault = None,
      refusal = OtherError ''Invalid value for skip argument'',
      queries = []\<rparr>"

text \<open>
  Ten seconds before the clock of the examples the actions created since were not in the
  database yet.
\<close>

definition example_earlier :: int where
  "example_earlier = example_now - 10000"

definition example_earlier_db :: database where
  "example_earlier_db =
     example_db\<lparr>actionTable :=
       filter (\<lambda>a. a_createdAt a \<le> example_earlier) (actionTable example_db)\<rparr>"

text \<open>
  A runtime in a time zone that leaves daylight-saving time at \<open>example_change\<close> (the end
  of October 2023 in central Europe): until then its clock is two hours ahead of
  universal time, from then on one hour. A person has one action a quarter of an hour
  before the change and one a quarter of an hour after it; the clock of the example is
  two days and half an hour after the change.
\<close>

definition example_change :: int where
  "example_change = 1698541200000"

definition example_dst_runtime :: runtime where
  "example_dst_runtime =
     example_runtime\<lparr>timezoneOffset :=
       (\<lambda>t. if t < example_change then 7200000 else 3600000)\<rparr>"

definition example_dst_db :: database where
  "example_dst_db =
     example_db\<lparr>actionTable :=
       [\<lparr>a_id = ''b1'', a_createdAt = example_change - 900000, a_personId = ''p1'',
         a_actionClassId = ''ac1'', a_properties = []\<rparr>,
        \<lparr>a_id = ''b2'', a_createdAt = example_change + 900000, a_personId = ''p1'',
         a_actionClassId = ''ac1'', a_properties = []\<rparr>]\<rparr>"

definition example_dst_now :: int where
  "example_dst_now = example_change + 2 * 86400000 + 1800000"

definition example_services :: services where
  "example_services =
     \<lparr>getActionClassByEnvironmentIdAndName =
        (\<lambda>environmentId name d.
           (Inr (find (\<lambda>c. ac_environmentId c = environmentId \<and> ac_name c = name)
                   (actionClassTable d)), d)),
      createActionClass =
        (\<lambda>environmentId input d.
           (let c = \<lparr>ac_id = ''ac3'', ac_name = aci_name input, ac_type = aci_type input,
                     ac_environmentId = aci_environmentId input\<rparr>
            in (Inr c, d\<lparr>actionClassTable := actionClassTable d @ [c]\<rparr>))),
      getIsPersonMonthlyActive = (\<lambda>personId d. (Inr (personId = ''p2''), d))\<rparr>"

definition example_failing_db :: database where
  "example_failing_db = example_db\<lparr>fault := Some (PrismaClientKnownRequestError ''P1001'')\<rparr>"

definition example_input :: "string \<Rightarrow> string \<Rightarrow> TActionInput" where
  "example_input userId name =
     \<lparr>in_environmentId = ''env1'', in_userId = userId, in_name = name\<rparr>"

definition example_world :: world where
  "example_world = \<lparr>db = example_db, revalidatedTags = []\<rparr>"

section \<open>Counting, as the specification words it\<close>

text \<open>
  The number of actions of the action table with a property: every row with the property
  counts once.
\<close>

definition number_of_actions :: "database \<Rightarrow> (action \<Rightarrow> bool) \<Rightarrow> nat" where
  "number_of_actions d P = sum_list (map (\<lambda>a. if P a then 1 else 0) (actionTable d))"

text \<open>
  The foreign keys of the action table, which the database enforces: the person and the
  action class of every action exist.
\<close>

definition foreign_keys_ok :: "database \<Rightarrow> bool" where
  "foreign_keys_ok d =
     list_all (\<lambda>a. find_actionClass d (a_actionClassId a) \<noteq> None \<and>
                    find_person d (a_personId a) \<noteq> None) (actionTable d)"

section \<open>Listing, as the specification words it\<close>

text \<open>
  The instant of a date, whether it is a \<^verbatim>\<open>Date\<close> or its string; a date is deserialized
  when it is a \<^verbatim>\<open>Date\<close>; a list of instants is in descending order when no instant is
  followed by a later one.
\<close>

definition instant :: "date \<Rightarrow> int" where
  "instant dt = (case dt of DateObj t \<Rightarrow> t | DateStr t \<Rightarrow> t)"

definition deserialized :: "date \<Rightarrow> bool" where
  "deserialized dt = (case dt of DateObj _ \<Rightarrow> True | DateStr _ \<Rightarrow> False)"

definition descending :: "int list \<Rightarrow> bool" where
  "descending ts = sorted_wrt (\<lambda>x y. y \<le> x) ts"

text \<open>
  The \<^verbatim>\<open>TAction\<close> of a row of the action table: the five fields, with the action class
  of the row. An action belongs to an environment when its action class does.
\<close>

definition shaped :: "database \<Rightarrow> action \<Rightarrow> TAction" where
  "shaped d a =
     \<lparr>t_id = a_id a, t_createdAt = DateObj (a_createdAt a), t_personId = a_personId a,
      t_properties = a_properties a,
      t_actionClass = find_actionClass d (a_actionClassId a)\<rparr>"

definition in_environment :: "database \<Rightarrow> string \<Rightarrow> action \<Rightarrow> bool" where
  "in_environment d environmentId a =
     (case find_actionClass d (a_actionClassId a) of
        None \<Rightarrow> False
      | Some c \<Rightarrow> ac_environmentId c = environmentId)"

section \<open>Rejecting an invalid input, as the specification words it\<close>

text \<open>
  A cached read rejects its input when the call leaves the cache and the database (its
  tables and the log of its queries) as they were and, unless the cache holds an entry
  under the key of the call, throws the validation error.
\<close>

definition rejects ::
  "('v cache \<times> database \<Rightarrow> 'v result \<times> 'v cache \<times> database) \<Rightarrow> string list \<Rightarrow> bool" where
  "rejects call keyParts =
     (\<forall>c d. snd (call (c, d)) = (c, d) \<and>
            (c keyParts = None \<longrightarrow> fst (call (c, d)) = Inl ValidationError))"

section \<open>Thrown errors, as the specification words it\<close>

text \<open>
  The error of the ORM is a known request error; a cached read throws an error on a
  database when every call on it for which the cache holds no entry under the key throws
  that error.
\<close>

definition known_request_error :: "error \<Rightarrow> bool" where
  "known_request_error e = (case e of PrismaClientKnownRequestError _ \<Rightarrow> True | _ \<Rightarrow> False)"

definition throws ::
  "('v cache \<times> database \<Rightarrow> 'v result \<times> 'v cache \<times> database) \<Rightarrow>
   string list \<Rightarrow> database \<Rightarrow> error \<Rightarrow> bool" where
  "throws call keyParts d e = (\<forall>c. c keyParts = None \<longrightarrow> fst (call (c, d)) = Inl e)"

section \<open>The cached operations, as the specification words them\<close>

text \<open>
  A call of one of the fourteen cached operations, with its arguments (a page that is a
  natural number or \<^verbatim>\<open>undefined\<close>); the key list and the options the operation passes
  to the framework cache for the call, as they stand in the definitions above.
\<close>

datatype cached_call =
    CanUserAccessWebhook string string
  | CanUserAccessAttributeClass string string
  | GetActionsByPersonId string "nat option"
  | GetActionsByEnvironmentId string "nat option"
  | GetActionCountInLastHour string
  | GetActionCountInLast24Hours string
  | GetActionCountInLast7Days string
  | GetActionCountInLastQuarter string string
  | GetActionCountInLastMonth string string
  | GetActionCountInLastWeek string string
  | GetTotalOccurrencesForAction string string
  | GetLastOccurrenceDaysAgo string string
  | GetFirstOccurrenceDaysAgo string string
  | SendFreeLimitReachedEventToPosthogBiWeekly string plan

fun keyParts_of :: "cached_call \<Rightarrow> string list" where
  "keyParts_of (CanUserAccessWebhook userId webhookId) =
     canUserAccessWebhook_key userId webhookId"
| "keyParts_of (CanUserAccessAttributeClass userId attributeClassId) =
     canUserAccessAttributeClass_key userId attributeClassId"
| "keyParts_of (GetActionsByPersonId personId page) =
     getActionsByPersonId_key personId (show_page page)"
| "keyParts_of (GetActionsByEnvironmentId environmentId page) =
     getActionsByEnvironmentId_key environmentId (show_page page)"
| "keyParts_of (GetActionCountInLastHour actionClassId) =
     key1 ''getActionCountInLastHour'' actionClassId"
| "keyParts_of (GetActionCountInLast24Hours actionClassId) =
     key1 ''getActionCountInLast24Hours'' actionClassId"
| "keyParts_of (GetActionCountInLast7Days actionClassId) =
     key1 ''getActionCountInLast7Days'' actionClassId"
| "keyParts_of (GetActionCountInLastQuarter actionClassId personId) =
     key2 ''getActionCountInLastQuarter'' actionClassId personId"
| "keyParts_of (GetActionCountInLastMonth actionClassId personId) =
     key2 ''getActionCountInLastMonth'' actionClassId personId"
| "keyParts_of (GetActionCountInLastWeek actionClassId personId) =
     key2 ''getActionCountInLastWeek'' actionClassId personId"
| "keyParts_of (GetTotalOccurrencesForAction actionClassId personId) =
     key2 ''getTotalOccurrencesForAction'' actionClassId personId"
| "keyParts_of (GetLastOccurrenceDaysAgo actionClassId personId) =
     key2 ''getLastOccurrenceDaysAgo'' actionClassId personId"
| "keyParts_of (GetFirstOccurrenceDaysAgo actionClassId personId) =
     key2 ''getFirstOccurrenceDaysAgo'' actionClassId personId"
| "keyParts_of (SendFreeLimitReachedEventToPosthogBiWeekly environmentId p) =
     sendFreeLimitReachedEventToPosthogBiWeekly_key environmentId p"

fun options_of :: "config \<Rightarrow> cache_tags \<Rightarrow> cached_call \<Rightarrow> cache_options" where
  "options_of cfg tg (CanUserAccessWebhook userId webhookId) =
     canUserAccessWebhook_opts cfg tg webhookId"
| "options_of cfg tg (CanUserAccessAttributeClass userId attributeClassId) =
     canUserAccessAttributeClass_opts cfg attributeClassId"
| "options_of cfg tg (GetActionsByPersonId personId page) =
     getActionsByPersonId_opts cfg tg personId"
| "options_of cfg tg (GetActionsByEnvironmentId environmentId page) =
     getActionsByEnvironmentId_opts cfg tg environmentId"
| "options_of cfg tg (GetActionCountInLastHour actionClassId) =
     actionClass_opts cfg tg actionClassId"
| "options_of cfg tg (GetActionCountInLast24Hours actionClassId) =
     actionClass_opts cfg tg actionClassId"
| "options_of cfg tg (GetActionCountInLast7Days actionClassId) =
     actionClass_opts cfg tg actionClassId"
| "options_of cfg tg (GetActionCountInLastQuarter actionClassId personId) =
     actionClass_opts cfg tg actionClassId"
| "options_of cfg tg (GetActionCountInLastMonth actionClassId personId) =
     actionClass_opts cfg tg actionClassId"
| "options_of cfg tg (GetActionCountInLastWeek actionClassId personId) =
     actionClass_opts cfg tg actionClassId"
| "options_of cfg tg (GetTotalOccurrencesForAction actionClassId personId) =
     actionClass_opts cfg tg actionClassId"
| "options_of cfg tg (GetLastOccurrenceDaysAgo actionClassId personId) =
     actionClass_opts cfg tg actionClassId"
| "options_of cfg tg (GetFirstOccurrenceDaysAgo actionClassId personId) =
     actionClass_opts cfg tg actionClassId"
| "options_of cfg tg (SendFreeLimitReachedEventToPosthogBiWeekly environmentId p) =
     sendFreeLimitReachedEventToPosthogBiWeekly_opts"








definition no_hyphen :: "string \<Rightarrow> bool" where
  "no_hyphen s = (CHR ''-'' \<notin> set s)"

section \<open>Properties of the framework cache\<close>

lemma unstable_cache_no_entry:
  "c k = None \<Longrightarrow>
   unstable_cache j cb k opts now (c, s) =
     (case cb s of
        (Inl e, s') \<Rightarrow> (Inl e, c, s')
      | (Inr v, s') \<Rightarrow>
          (Inr v, c(k \<mapsto> \<lparr>data = j v, entry_tags = tags opts, stored_at = now\<rparr>), s'))"
  by (simp add: unstable_cache_def)

lemma fst_unstable_cache_no_entry:
  "c k = None \<Longrightarrow> fst (unstable_cache j cb k opts now (c, s)) = fst (cb s)"
  by (simp add: unstable_cache_no_entry split: prod.splits sum.splits)

lemma fst_unstable_cache_entry:
  "c k = Some e \<Longrightarrow> fst (unstable_cache j cb k opts now (c, s)) = Inr (data e)"
  by (simp add: unstable_cache_def split: prod.splits sum.splits)


section \<open>The access checks\<close>

lemma canUserAccessWebhook_fn_valid:
  "ZId cfg userId \<Longrightarrow> ZId cfg webhookId \<Longrightarrow>
   canUserAccessWebhook_fn cfg getWebhook hasAccess userId webhookId =
     (case getWebhook webhookId of
        Inl e \<Rightarrow> Inl e
      | Inr None \<Rightarrow> Inr False
      | Inr (Some w) \<Rightarrow> hasAccess userId (wh_environmentId w))"
  by (simp add: canUserAccessWebhook_fn_def validateInputs_def split: sum.splits option.splits)

lemma canUserAccessWebhook_fn_invalid:
  "\<not> (ZId cfg userId \<and> ZId cfg webhookId) \<Longrightarrow>
   canUserAccessWebhook_fn cfg getWebhook hasAccess userId webhookId = Inl ValidationError"
  by (auto simp add: canUserAccessWebhook_fn_def validateInputs_def)

lemma canUserAccessWebhook_fn_true:
  "canUserAccessWebhook_fn cfg getWebhook hasAccess userId webhookId = Inr True \<Longrightarrow>
   \<exists>w. getWebhook webhookId = Inr (Some w) \<and> hasAccess userId (wh_environmentId w) = Inr True"
  by (auto simp add: canUserAccessWebhook_fn_def validateInputs_def
        split: sum.splits option.splits if_splits)

lemma canUserAccessAttributeClass_fn_valid:
  "ZId cfg userId \<Longrightarrow> ZId cfg rid \<Longrightarrow> userId \<noteq> [] \<Longrightarrow>
   canUserAccessAttributeClass_fn cfg getAttributeClass hasAccess userId rid =
     (case getAttributeClass rid of
        Inl e \<Rightarrow> Inl e
      | Inr None \<Rightarrow> Inr False
      | Inr (Some a) \<Rightarrow> hasAccess userId (atc_environmentId a))"
  by (simp add: canUserAccessAttributeClass_fn_def validateInputs_def
        split: sum.splits option.splits)

lemma canUserAccessAttributeClass_fn_empty:
  "ZId cfg [] \<Longrightarrow> ZId cfg rid \<Longrightarrow>
   canUserAccessAttributeClass_fn cfg getAttributeClass hasAccess [] rid = Inr False"
  by (simp add: canUserAccessAttributeClass_fn_def validateInputs_def)

lemma canUserAccessAttributeClass_fn_invalid:
  "\<not> (ZId cfg userId \<and> ZId cfg rid) \<Longrightarrow>
   canUserAccessAttributeClass_fn cfg getAttributeClass hasAccess userId rid =
     Inl ValidationError"
  by (auto simp add: canUserAccessAttributeClass_fn_def validateInputs_def)

lemma canUserAccessAttributeClass_fn_true:
  "canUserAccessAttributeClass_fn cfg getAttributeClass hasAccess userId rid = Inr True \<Longrightarrow>
   \<exists>a. getAttributeClass rid = Inr (Some a) \<and> hasAccess userId (atc_environmentId a) = Inr True"
  by (auto simp add: canUserAccessAttributeClass_fn_def validateInputs_def
        split: sum.splits option.splits if_splits)

lemma canUserAccessWebhook_no_entry:
  "c (canUserAccessWebhook_key userId webhookId) = None \<Longrightarrow>
   fst (canUserAccessWebhook cfg tg getWebhook hasAccess now userId webhookId c) =
     canUserAccessWebhook_fn cfg getWebhook hasAccess userId webhookId"
  by (simp add: canUserAccessWebhook_def unstable_cache_no_entry split: sum.splits)

lemma canUserAccessWebhook_entry:
  "c (canUserAccessWebhook_key userId webhookId) = Some e \<Longrightarrow>
   fst (canUserAccessWebhook cfg tg getWebhook hasAccess now userId webhookId c) = Inr (data e)"
  by (simp add: canUserAccessWebhook_def unstable_cache_def split: prod.splits sum.splits)

lemma canUserAccessAttributeClass_no_entry:
  "c (canUserAccessAttributeClass_key userId rid) = None \<Longrightarrow>
   fst (canUserAccessAttributeClass cfg getAttributeClass hasAccess now userId rid c) =
     canUserAccessAttributeClass_fn cfg getAttributeClass hasAccess userId rid"
  by (simp add: canUserAccessAttributeClass_def unstable_cache_no_entry split: sum.splits)

lemma canUserAccessAttributeClass_entry:
  "c (canUserAccessAttributeClass_key userId rid) = Some e \<Longrightarrow>
   fst (canUserAccessAttributeClass cfg getAttributeClass hasAccess now userId rid c) =
     Inr (data e)"
  by (simp add: canUserAccessAttributeClass_def unstable_cache_def
        split: prod.splits sum.splits)

text \<open>
  C1, as amended. A call of \<^verbatim>\<open>canUserAccessWebhook\<close> for which the cache holds no entry
  returns, with ids that pass \<^verbatim>\<open>ZId\<close>, \<open>False\<close> when the looked-up webhook does not exist
  and otherwise the result of \<^verbatim>\<open>hasUserEnvironmentAccess\<close> on the webhook's environment
  (an error of a lookup is thrown on), so it returns \<open>True\<close> only when the webhook exists
  and the user has access to its environment; with an id that fails \<^verbatim>\<open>ZId\<close> it throws
  the validation error. A call for which the cache holds an entry returns the boolean
  stored there. The same holds of \<^verbatim>\<open>canUserAccessAttributeClass\<close>, which for an empty
  user id that passes \<^verbatim>\<open>ZId\<close> returns \<open>False\<close> without a lookup.
\<close>

theorem canUserAccess_lookup:
  "(cw (canUserAccessWebhook_key userId webhookId) = None \<and>
    ZId cfg userId \<and> ZId cfg webhookId \<longrightarrow>
      fst (canUserAccessWebhook cfg tg getWebhook hasAccess now userId webhookId cw) =
        (case getWebhook webhookId of
           Inl e \<Rightarrow> Inl e
         | Inr None \<Rightarrow> Inr False
         | Inr (Some w) \<Rightarrow> hasAccess userId (wh_environmentId w))) \<and>
   (cw (canUserAccessWebhook_key userId webhookId) = None \<and>
    \<not> (ZId cfg userId \<and> ZId cfg webhookId) \<longrightarrow>
      fst (canUserAccessWebhook cfg tg getWebhook hasAccess now userId webhookId cw) =
        Inl ValidationError) \<and>
   (cw (canUserAccessWebhook_key userId webhookId) = None \<and>
    fst (canUserAccessWebhook cfg tg getWebhook hasAccess now userId webhookId cw) = Inr True \<longrightarrow>
      (\<exists>w. getWebhook webhookId = Inr (Some w) \<and>
           hasAccess userId (wh_environmentId w) = Inr True)) \<and>
   (\<forall>e. cw (canUserAccessWebhook_key userId webhookId) = Some e \<longrightarrow>
      fst (canUserAccessWebhook cfg tg getWebhook hasAccess now userId webhookId cw) =
        Inr (data e)) \<and>
   (ca (canUserAccessAttributeClass_key userId attributeClassId) = None \<and>
    ZId cfg userId \<and> ZId cfg attributeClassId \<and> userId \<noteq> [] \<longrightarrow>
      fst (canUserAccessAttributeClass cfg getAttributeClass hasAccess now userId
             attributeClassId ca) =
        (case getAttributeClass attributeClassId of
           Inl e \<Rightarrow> Inl e
         | Inr None \<Rightarrow> Inr False
         | Inr (Some a) \<Rightarrow> hasAccess userId (atc_environmentId a))) \<and>
   (ca (canUserAccessAttributeClass_key userId attributeClassId) = None \<and>
    ZId cfg userId \<and> ZId cfg attributeClassId \<and> userId = [] \<longrightarrow>
      fst (canUserAccessAttributeClass cfg getAttributeClass hasAccess now userId
             attributeClassId ca) = Inr False) \<and>
   (ca (canUserAccessAttributeClass_key userId attributeClassId) = None \<and>
    \<not> (ZId cfg userId \<and> ZId cfg attributeClassId) \<longrightarrow>
      fst (canUserAccessAttributeClass cfg getAttributeClass hasAccess now userId
             attributeClassId ca) = Inl ValidationError) \<and>
   (ca (canUserAccessAttributeClass_key userId attributeClassId) = None \<and>
    fst (canUserAccessAttributeClass cfg getAttributeClass hasAccess now userId
           attributeClassId ca) = Inr True \<longrightarrow>
      (\<exists>a. getAttributeClass attributeClassId = Inr (Some a) \<and>
           hasAccess userId (atc_environmentId a) = Inr True)) \<and>
   (\<forall>e. ca (canUserAccessAttributeClass_key userId attributeClassId) = Some e \<longrightarrow>
      fst (canUserAccessAttributeClass cfg getAttributeClass hasAccess now userId
             attributeClassId ca) = Inr (data e))"
proof (intro conjI impI allI)
  assume "cw (canUserAccessWebhook_key userId webhookId) = None \<and>
    ZId cfg userId \<and> ZId cfg webhookId"
  then show "fst (canUserAccessWebhook cfg tg getWebhook hasAccess now userId webhookId cw) =
        (case getWebhook webhookId of
           Inl e \<Rightarrow> Inl e
         | Inr None \<Rightarrow> Inr False
         | Inr (Some w) \<Rightarrow> hasAccess userId (wh_environmentId w))"
    by (simp add: canUserAccessWebhook_no_entry canUserAccessWebhook_fn_valid)
next
  assume "cw (canUserAccessWebhook_key userId webhookId) = None \<and>
    \<not> (ZId cfg userId \<and> ZId cfg webhookId)"
  then show "fst (canUserAccessWebhook cfg tg getWebhook hasAccess now userId webhookId cw) =
        Inl ValidationError"
    by (simp add: canUserAccessWebhook_no_entry canUserAccessWebhook_fn_invalid)
next
  assume "cw (canUserAccessWebhook_key userId webhookId) = None \<and>
    fst (canUserAccessWebhook cfg tg getWebhook hasAccess now userId webhookId cw) = Inr True"
  then show "\<exists>w. getWebhook webhookId = Inr (Some w) \<and>
           hasAccess userId (wh_environmentId w) = Inr True"
    by (auto simp add: canUserAccessWebhook_no_entry dest: canUserAccessWebhook_fn_true)
next
  fix e
  assume "cw (canUserAccessWebhook_key userId webhookId) = Some e"
  then show "fst (canUserAccessWebhook cfg tg getWebhook hasAccess now userId webhookId cw) =
        Inr (data e)"
    by (rule canUserAccessWebhook_entry)
next
  assume "ca (canUserAccessAttributeClass_key userId attributeClassId) = None \<and>
    ZId cfg userId \<and> ZId cfg attributeClassId \<and> userId \<noteq> []"
  then show "fst (canUserAccessAttributeClass cfg getAttributeClass hasAccess now userId
             attributeClassId ca) =
        (case getAttributeClass attributeClassId of
           Inl e \<Rightarrow> Inl e
         | Inr None \<Rightarrow> Inr False
         | Inr (Some a) \<Rightarrow> hasAccess userId (atc_environmentId a))"
    by (simp add: canUserAccessAttributeClass_no_entry canUserAccessAttributeClass_fn_valid)
next
  assume "ca (canUserAccessAttributeClass_key userId attributeClassId) = None \<and>
    ZId cfg userId \<and> ZId cfg attributeClassId \<and> userId = []"
  then show "fst (canUserAccessAttributeClass cfg getAttributeClass hasAccess now userId
             attributeClassId ca) = Inr False"
    by (auto simp add: canUserAccessAttributeClass_no_entry
          canUserAccessAttributeClass_fn_empty)
next
  assume "ca (canUserAccessAttributeClass_key userId attributeClassId) = None \<and>
    \<not> (ZId cfg userId \<and> ZId cfg attributeClassId)"
  then show "fst (canUserAccessAttributeClass cfg getAttributeClass hasAccess now userId
             attributeClassId ca) = Inl ValidationError"
    by (simp add: canUserAccessAttributeClass_no_entry canUserAccessAttributeClass_fn_invalid)
next
  assume "ca (canUserAccessAttributeClass_key userId attributeClassId) = None \<and>
    fst (canUserAccessAttributeClass cfg getAttributeClass hasAccess now userId
           attributeClassId ca) = Inr True"
  then show "\<exists>a. getAttributeClass attributeClassId = Inr (Some a) \<and>
           hasAccess userId (atc_environmentId a) = Inr True"
    by (auto simp add: canUserAccessAttributeClass_no_entry
          dest: canUserAccessAttributeClass_fn_true)
next
  fix e
  assume "ca (canUserAccessAttributeClass_key userId attributeClassId) = Some e"
  then show "fst (canUserAccessAttributeClass cfg getAttributeClass hasAccess now userId
             attributeClassId ca) = Inr (data e)"
    by (rule canUserAccessAttributeClass_entry)
qed

lemma example_first_access:
  "canUserAccessWebhook example_config example_tags example_getWebhook example_access
     5000 ''user1'' ''wh1'' Map.empty =
   (Inr True,
    Map.empty (canUserAccessWebhook_key ''user1'' ''wh1'' \<mapsto>
      \<lparr>data = True, entry_tags = [''webhooks-wh1''], stored_at = 5000\<rparr>))"
  by (simp add: canUserAccessWebhook_def unstable_cache_def canUserAccessWebhook_fn_def
        validateInputs_def example_config_def example_getWebhook_def example_access_def
        canUserAccessWebhook_opts_def example_tags_def)

theorem canUserAccess_lookup_witness:
  "ZId example_config ''user1'' \<and> ZId example_config ''wh1'' \<and> ZId example_config ''atc1'' \<and>
   fst (canUserAccessWebhook example_config example_tags example_getWebhook example_access
          5000 ''user1'' ''wh1'' Map.empty) = Inr True \<and>
   fst (canUserAccessAttributeClass example_config example_getAttributeClass example_access
          5000 ''user1'' ''atc1'' Map.empty) = Inr False \<and>
   fst (canUserAccessWebhook example_config example_tags example_getWebhook example_access
          5000 ''user1'' ''wh2''
          (Map.empty (canUserAccessWebhook_key ''user1'' ''wh2'' \<mapsto>
             \<lparr>data = False, entry_tags = [], stored_at = 0\<rparr>))) = Inr False"
  using canUserAccess_lookup [where cw = Map.empty and ca = Map.empty and userId = "''user1''"
      and webhookId = "''wh1''" and attributeClassId = "''atc1''" and cfg = example_config
      and tg = example_tags and now = 5000 and getWebhook = example_getWebhook
      and getAttributeClass = example_getAttributeClass and hasAccess = example_access]
    canUserAccess_lookup [where
      cw = "Map.empty (canUserAccessWebhook_key ''user1'' ''wh2'' \<mapsto>
             \<lparr>data = False, entry_tags = [], stored_at = 0\<rparr>)" and ca = Map.empty
      and userId = "''user1''" and webhookId = "''wh2''" and attributeClassId = "''atc1''"
      and cfg = example_config and tg = example_tags and now = 5000
      and getWebhook = example_getWebhook and getAttributeClass = example_getAttributeClass
      and hasAccess = example_access]
  by (simp add: example_config_def example_getWebhook_def
        example_getAttributeClass_def example_access_def)

text \<open>
  C1, as stated, fails. The user has access and a first call returns \<open>True\<close>; one second
  later the access is refused and the same call, answered from the cache, still returns
  \<open>True\<close>. And with an id that fails \<^verbatim>\<open>ZId\<close> the call returns no boolean: it throws.
\<close>

theorem canUserAccess_lookup_counterexample:
  "example_getWebhook ''wh1'' = Inr (Some \<lparr>wh_id = ''wh1'', wh_environmentId = ''env1''\<rparr>) \<and>
   example_no_access ''user1'' ''env1'' = Inr False \<and>
   fst (canUserAccessWebhook example_config example_tags example_getWebhook example_no_access
          6000 ''user1'' ''wh1''
          (snd (canUserAccessWebhook example_config example_tags example_getWebhook
                  example_access 5000 ''user1'' ''wh1'' Map.empty))) = Inr True \<and>
   \<not> ZId example_config ''no-id'' \<and>
   fst (canUserAccessWebhook example_config example_tags example_getWebhook example_access
          5000 ''no-id'' ''wh1'' Map.empty) = Inl ValidationError"
proof -
  have "fst (canUserAccessWebhook example_config example_tags example_getWebhook
               example_no_access 6000 ''user1'' ''wh1''
               (snd (canUserAccessWebhook example_config example_tags example_getWebhook
                       example_access 5000 ''user1'' ''wh1'' Map.empty))) = Inr True"
    by (simp only: example_first_access snd_conv)
       (simp add: canUserAccessWebhook_def unstable_cache_def stale_def
          canUserAccessWebhook_opts_def example_config_def)
  moreover have "\<not> ZId example_config ''no-id''"
    by (simp add: example_config_def)
  moreover have "fst (canUserAccessWebhook example_config example_tags example_getWebhook
                        example_access 5000 ''no-id'' ''wh1'' Map.empty) = Inl ValidationError"
    by (simp add: canUserAccessWebhook_no_entry canUserAccessWebhook_fn_invalid
          example_config_def)
  moreover have "example_getWebhook ''wh1'' =
      Inr (Some \<lparr>wh_id = ''wh1'', wh_environmentId = ''env1''\<rparr>)"
    by (simp add: example_getWebhook_def)
  moreover have "example_no_access ''user1'' ''env1'' = Inr False"
    by (simp add: example_no_access_def)
  ultimately show ?thesis by simp
qed

section \<open>Properties of the counts\<close>

lemma length_filter_sum_list:
  "length (filter P xs) = sum_list (map (\<lambda>a. if P a then 1 else 0) xs)"
  by (induction xs) simp_all

lemma count_rows: "length (filter P (actionTable d)) = number_of_actions d P"
  by (simp add: number_of_actions_def length_filter_sum_list)

lemma find_actionClass_id: "find_actionClass d cid = Some c \<Longrightarrow> ac_id c = cid"
  by (auto simp add: find_actionClass_def find_Some_iff)

lemma find_person_id: "find_person d pid = Some p \<Longrightarrow> p_id p = pid"
  by (auto simp add: find_person_def find_Some_iff)

lemma foreign_keys_okD:
  "foreign_keys_ok d \<Longrightarrow> a \<in> set (actionTable d) \<Longrightarrow>
   (\<exists>c. find_actionClass d (a_actionClassId a) = Some c) \<and>
   (\<exists>p. find_person d (a_personId a) = Some p)"
  by (auto simp add: foreign_keys_ok_def list_all_iff)

lemma matches_class_since:
  "matches d (anyAction\<lparr>where_actionClassId := Some cid, where_createdAt_gte := Some t\<rparr>) a =
     (a_actionClassId a = cid \<and> t \<le> a_createdAt a)"
  by (simp add: matches_def anyAction_def)

lemma matches_personActions:
  assumes "foreign_keys_ok d" and "a \<in> set (actionTable d)"
  shows "matches d (personActions cid pid) a = (a_personId a = pid \<and> a_actionClassId a = cid)"
proof -
  from foreign_keys_okD [OF assms] obtain c where c: "find_actionClass d (a_actionClassId a) = Some c"
    by blast
  then have "ac_id c = a_actionClassId a" by (rule find_actionClass_id)
  with c show ?thesis
    by (simp add: matches_def personActions_def anyAction_def)
qed

lemma matches_personActions_since:
  assumes "foreign_keys_ok d" and "a \<in> set (actionTable d)"
  shows "matches d ((personActions cid pid)\<lparr>where_createdAt_gte := Some t\<rparr>) a =
           (a_personId a = pid \<and> a_actionClassId a = cid \<and> t \<le> a_createdAt a)"
proof -
  from foreign_keys_okD [OF assms] obtain c where c: "find_actionClass d (a_actionClassId a) = Some c"
    by blast
  then have "ac_id c = a_actionClassId a" by (rule find_actionClass_id)
  with c show ?thesis
    by (simp add: matches_def personActions_def anyAction_def)
qed

lemma prisma_action_count_works:
  "fault d = None \<Longrightarrow>
   fst (prisma_action_count w d) = Inr (length (filter (matches d w) (actionTable d)))"
  by (simp add: prisma_action_count_def prisma_call_def Let_def)

lemma count_class_since:
  "fault d = None \<Longrightarrow>
   fst (prisma_action_count
          (anyAction\<lparr>where_actionClassId := Some cid, where_createdAt_gte := Some t\<rparr>) d) =
     Inr (number_of_actions d (\<lambda>a. a_actionClassId a = cid \<and> t \<le> a_createdAt a))"
proof -
  have "matches d (anyAction\<lparr>where_actionClassId := Some cid, where_createdAt_gte := Some t\<rparr>) =
        (\<lambda>a. a_actionClassId a = cid \<and> t \<le> a_createdAt a)"
    by (rule ext) (simp add: matches_class_since)
  then show "fault d = None \<Longrightarrow> ?thesis"
    by (simp add: prisma_action_count_works count_rows)
qed

lemma count_since_fn_works:
  assumes "ZId cfg cid" and "ZId cfg pid" and "fault d = None" and "foreign_keys_ok d"
  shows "fst (count_since_fn cfg t cid pid d) =
           Inr (number_of_actions d
                  (\<lambda>a. a_personId a = pid \<and> a_actionClassId a = cid \<and> t \<le> a_createdAt a))"
proof -
  have "filter (matches d ((personActions cid pid)\<lparr>where_createdAt_gte := Some t\<rparr>)) (actionTable d) =
        filter (\<lambda>a. a_personId a = pid \<and> a_actionClassId a = cid \<and> t \<le> a_createdAt a) (actionTable d)"
    by (rule filter_cong) (simp_all add: matches_personActions_since assms(4))
  with assms(1-3) show ?thesis
    by (simp add: count_since_fn_def validateInputs_def prisma_action_count_works count_rows)
qed

lemma getActionCountInLastHour_works:
  assumes "ZId cfg actionClassId" and "fault d = None"
      and "c (key1 ''getActionCountInLastHour'' actionClassId) = None"
  shows "fst (getActionCountInLastHour cfg tg now actionClassId (c, d)) =
           Inr (number_of_actions d
                  (\<lambda>a. a_actionClassId a = actionClassId \<and> now - 3600000 \<le> a_createdAt a))"
  using assms
  by (simp add: getActionCountInLastHour_def fst_unstable_cache_no_entry getActionCountInLastHour_fn_def validateInputs_def
        count_class_since)

lemma getActionCountInLast24Hours_works:
  assumes "ZId cfg actionClassId" and "fault d = None"
      and "c (key1 ''getActionCountInLast24Hours'' actionClassId) = None"
  shows "fst (getActionCountInLast24Hours cfg tg now actionClassId (c, d)) =
           Inr (number_of_actions d
                  (\<lambda>a. a_actionClassId a = actionClassId \<and> now - 86400000 \<le> a_createdAt a))"
  using assms
  by (simp add: getActionCountInLast24Hours_def fst_unstable_cache_no_entry getActionCountInLast24Hours_fn_def validateInputs_def
        count_class_since)

lemma getActionCountInLast7Days_works:
  assumes "ZId cfg actionClassId" and "fault d = None"
      and "c (key1 ''getActionCountInLast7Days'' actionClassId) = None"
  shows "fst (getActionCountInLast7Days cfg tg now actionClassId (c, d)) =
           Inr (number_of_actions d
                  (\<lambda>a. a_actionClassId a = actionClassId \<and> now - 604800000 \<le> a_createdAt a))"
  using assms
  by (simp add: getActionCountInLast7Days_def fst_unstable_cache_no_entry getActionCountInLast7Days_fn_def validateInputs_def
        count_class_since)

lemma getActionCountInLastWeek_works:
  assumes "ZId cfg actionClassId" and "ZId cfg personId" and "fault d = None"
      and "foreign_keys_ok d"
      and "c (key2 ''getActionCountInLastWeek'' actionClassId personId) = None"
  shows "fst (getActionCountInLastWeek cfg tg sd now actionClassId personId (c, d)) =
           Inr (number_of_actions d
                  (\<lambda>a. a_personId a = personId \<and> a_actionClassId a = actionClassId \<and>
                       getStartDateOfLastWeek sd now \<le> a_createdAt a))"
  using assms(5)
  by (simp add: getActionCountInLastWeek_def fst_unstable_cache_no_entry count_since_fn_works [OF assms(1-4)])

lemma getActionCountInLastMonth_works:
  assumes "ZId cfg actionClassId" and "ZId cfg personId" and "fault d = None"
      and "foreign_keys_ok d"
      and "c (key2 ''getActionCountInLastMonth'' actionClassId personId) = None"
  shows "fst (getActionCountInLastMonth cfg tg sd now actionClassId personId (c, d)) =
           Inr (number_of_actions d
                  (\<lambda>a. a_personId a = personId \<and> a_actionClassId a = actionClassId \<and>
                       getStartDateOfLastMonth sd now \<le> a_createdAt a))"
  using assms(5)
  by (simp add: getActionCountInLastMonth_def fst_unstable_cache_no_entry count_since_fn_works [OF assms(1-4)])

lemma getActionCountInLastQuarter_works:
  assumes "ZId cfg actionClassId" and "ZId cfg personId" and "fault d = None"
      and "foreign_keys_ok d"
      and "c (key2 ''getActionCountInLastQuarter'' actionClassId personId) = None"
  shows "fst (getActionCountInLastQuarter cfg tg sd now actionClassId personId (c, d)) =
           Inr (number_of_actions d
                  (\<lambda>a. a_personId a = personId \<and> a_actionClassId a = actionClassId \<and>
                       getStartDateOfLastQuarter sd now \<le> a_createdAt a))"
  using assms(5)
  by (simp add: getActionCountInLastQuarter_def fst_unstable_cache_no_entry count_since_fn_works [OF assms(1-4)])

lemma getActionCountInLastHour_entry:
  "c (key1 ''getActionCountInLastHour'' actionClassId) = Some e \<Longrightarrow>
   fst (getActionCountInLastHour cfg tg now actionClassId (c, d)) = Inr (data e)"
  by (simp add: getActionCountInLastHour_def fst_unstable_cache_entry)

lemma getActionCountInLast24Hours_entry:
  "c (key1 ''getActionCountInLast24Hours'' actionClassId) = Some e \<Longrightarrow>
   fst (getActionCountInLast24Hours cfg tg now actionClassId (c, d)) = Inr (data e)"
  by (simp add: getActionCountInLast24Hours_def fst_unstable_cache_entry)

lemma getActionCountInLast7Days_entry:
  "c (key1 ''getActionCountInLast7Days'' actionClassId) = Some e \<Longrightarrow>
   fst (getActionCountInLast7Days cfg tg now actionClassId (c, d)) = Inr (data e)"
  by (simp add: getActionCountInLast7Days_def fst_unstable_cache_entry)

lemma getActionCountInLastWeek_entry:
  "c (key2 ''getActionCountInLastWeek'' actionClassId personId) = Some e \<Longrightarrow>
   fst (getActionCountInLastWeek cfg tg sd now actionClassId personId (c, d)) = Inr (data e)"
  by (simp add: getActionCountInLastWeek_def fst_unstable_cache_entry)

lemma getActionCountInLastMonth_entry:
  "c (key2 ''getActionCountInLastMonth'' actionClassId personId) = Some e \<Longrightarrow>
   fst (getActionCountInLastMonth cfg tg sd now actionClassId personId (c, d)) = Inr (data e)"
  by (simp add: getActionCountInLastMonth_def fst_unstable_cache_entry)

lemma getActionCountInLastQuarter_entry:
  "c (key2 ''getActionCountInLastQuarter'' actionClassId personId) = Some e \<Longrightarrow>
   fst (getActionCountInLastQuarter cfg tg sd now actionClassId personId (c, d)) =
     Inr (data e)"
  by (simp add: getActionCountInLastQuarter_def fst_unstable_cache_entry)

text \<open>
  C2, as amended. For valid ids and a working database whose foreign keys hold, a call
  for which the cache holds no entry returns: for \<^verbatim>\<open>getActionCountInLastHour\<close>,
  \<^verbatim>\<open>getActionCountInLast24Hours\<close> and \<^verbatim>\<open>getActionCountInLast7Days\<close> the number of actions
  of the class created at or after the clock minus 1 hour, 24 hours and 7 days; for
  \<^verbatim>\<open>getActionCountInLastWeek\<close>, \<^verbatim>\<open>getActionCountInLastMonth\<close> and
  \<^verbatim>\<open>getActionCountInLastQuarter\<close> the number of the person's actions of the class created
  at or after the start of the last week, month and quarter. Nothing else is filtered. A
  call for which the cache holds an entry returns the count stored there.
\<close>

theorem action_counts_in_window:
  assumes valid: "ZId cfg actionClassId" "ZId cfg personId"
      and works: "fault d = None"
      and keys: "foreign_keys_ok d"
  shows
    "(c (key1 ''getActionCountInLastHour'' actionClassId) = None \<longrightarrow>
        fst (getActionCountInLastHour cfg tg now actionClassId (c, d)) =
          Inr (number_of_actions d
                 (\<lambda>a. a_actionClassId a = actionClassId \<and> now - 3600000 \<le> a_createdAt a))) \<and>
     (c (key1 ''getActionCountInLast24Hours'' actionClassId) = None \<longrightarrow>
        fst (getActionCountInLast24Hours cfg tg now actionClassId (c, d)) =
          Inr (number_of_actions d
                 (\<lambda>a. a_actionClassId a = actionClassId \<and> now - 86400000 \<le> a_createdAt a))) \<and>
     (c (key1 ''getActionCountInLast7Days'' actionClassId) = None \<longrightarrow>
        fst (getActionCountInLast7Days cfg tg now actionClassId (c, d)) =
          Inr (number_of_actions d
                 (\<lambda>a. a_actionClassId a = actionClassId \<and> now - 604800000 \<le> a_createdAt a))) \<and>
     (c (key2 ''getActionCountInLastWeek'' actionClassId personId) = None \<longrightarrow>
        fst (getActionCountInLastWeek cfg tg sd now actionClassId personId (c, d)) =
          Inr (number_of_actions d
                 (\<lambda>a. a_personId a = personId \<and> a_actionClassId a = actionClassId \<and>
                      getStartDateOfLastWeek sd now \<le> a_createdAt a))) \<and>
     (c (key2 ''getActionCountInLastMonth'' actionClassId personId) = None \<longrightarrow>
        fst (getActionCountInLastMonth cfg tg sd now actionClassId personId (c, d)) =
          Inr (number_of_actions d
                 (\<lambda>a. a_personId a = personId \<and> a_actionClassId a = actionClassId \<and>
                      getStartDateOfLastMonth sd now \<le> a_createdAt a))) \<and>
     (c (key2 ''getActionCountInLastQuarter'' actionClassId personId) = None \<longrightarrow>
        fst (getActionCountInLastQuarter cfg tg sd now actionClassId personId (c, d)) =
          Inr (number_of_actions d
                 (\<lambda>a. a_personId a = personId \<and> a_actionClassId a = actionClassId \<and>
                      getStartDateOfLastQuarter sd now \<le> a_createdAt a))) \<and>
     (\<forall>e. c (key1 ''getActionCountInLastHour'' actionClassId) = Some e \<longrightarrow>
        fst (getActionCountInLastHour cfg tg now actionClassId (c, d)) = Inr (data e)) \<and>
     (\<forall>e. c (key1 ''getActionCountInLast24Hours'' actionClassId) = Some e \<longrightarrow>
        fst (getActionCountInLast24Hours cfg tg now actionClassId (c, d)) = Inr (data e)) \<and>
     (\<forall>e. c (key1 ''getActionCountInLast7Days'' actionClassId) = Some e \<longrightarrow>
        fst (getActionCountInLast7Days cfg tg now actionClassId (c, d)) = Inr (data e)) \<and>
     (\<forall>e. c (key2 ''getActionCountInLastWeek'' actionClassId personId) = Some e \<longrightarrow>
        fst (getActionCountInLastWeek cfg tg sd now actionClassId personId (c, d)) =
          Inr (data e)) \<and>
     (\<forall>e. c (key2 ''getActionCountInLastMonth'' actionClassId personId) = Some e \<longrightarrow>
        fst (getActionCountInLastMonth cfg tg sd now actionClassId personId (c, d)) =
          Inr (data e)) \<and>
     (\<forall>e. c (key2 ''getActionCountInLastQuarter'' actionClassId personId) = Some e \<longrightarrow>
        fst (getActionCountInLastQuarter cfg tg sd now actionClassId personId (c, d)) =
          Inr (data e))"
  using assms
  by (simp add: getActionCountInLastHour_works getActionCountInLast24Hours_works
        getActionCountInLast7Days_works getActionCountInLastWeek_works
        getActionCountInLastMonth_works getActionCountInLastQuarter_works
        getActionCountInLastHour_entry getActionCountInLast24Hours_entry
        getActionCountInLast7Days_entry getActionCountInLastWeek_entry
        getActionCountInLastMonth_entry getActionCountInLastQuarter_entry)

lemma example_db_keys: "foreign_keys_ok example_db"
  by (simp add: foreign_keys_ok_def example_db_def example_action_def find_actionClass_def
        find_person_def)

theorem action_counts_in_window_witness:
  "ZId example_config ''ac1'' \<and> ZId example_config ''p1'' \<and> fault example_db = None \<and>
   foreign_keys_ok example_db \<and>
   fst (getActionCountInLastHour example_config example_tags example_now ''ac1''
          (Map.empty, example_db)) = Inr 1 \<and>
   fst (getActionCountInLast24Hours example_config example_tags example_now ''ac1''
          (Map.empty, example_db)) = Inr 2 \<and>
   fst (getActionCountInLast7Days example_config example_tags example_now ''ac1''
          (Map.empty, example_db)) = Inr 3 \<and>
   fst (getActionCountInLastWeek example_config example_tags example_startDates example_now
          ''ac1'' ''p1'' (Map.empty, example_db)) = Inr 2 \<and>
   fst (getActionCountInLastMonth example_config example_tags example_startDates example_now
          ''ac1'' ''p1'' (Map.empty, example_db)) = Inr 3 \<and>
   fst (getActionCountInLastQuarter example_config example_tags example_startDates example_now
          ''ac1'' ''p1'' (Map.empty, example_db)) = Inr 3 \<and>
   fst (getActionCountInLastHour example_config example_tags example_now ''ac1''
          (Map.empty (key1 ''getActionCountInLastHour'' ''ac1'' \<mapsto>
             \<lparr>data = 1, entry_tags = [''actionClasses-ac1''], stored_at = example_earlier\<rparr>),
           example_db)) = Inr 1"
proof -
  have valid: "ZId example_config ''ac1''" "ZId example_config ''p1''"
    by (simp_all add: example_config_def)
  have works: "fault example_db = None"
    by (simp add: example_db_def)
  note fresh = action_counts_in_window [OF valid works example_db_keys,
      where c = Map.empty and tg = example_tags and sd = example_startDates
        and now = example_now]
  note stored = action_counts_in_window [OF valid works example_db_keys,
      where c = "Map.empty (key1 ''getActionCountInLastHour'' ''ac1'' \<mapsto>
             \<lparr>data = 1, entry_tags = [''actionClasses-ac1''], stored_at = example_earlier\<rparr>)"
        and tg = example_tags and sd = example_startDates and now = example_now]
  have "fst (getActionCountInLastHour example_config example_tags example_now ''ac1''
          (Map.empty (key1 ''getActionCountInLastHour'' ''ac1'' \<mapsto>
             \<lparr>data = 1, entry_tags = [''actionClasses-ac1''], stored_at = example_earlier\<rparr>),
           example_db)) = Inr 1"
    using stored by simp
  with fresh show ?thesis
    using valid works example_db_keys
    by (simp add: number_of_actions_def example_db_def example_action_def
          example_startDates_def example_now_def)
qed

lemma example_earlier_db_works: "fault example_earlier_db = None"
  by (simp add: example_earlier_db_def example_db_def)

lemma example_earlier_hour:
  "getActionCountInLastHour example_config example_tags example_earlier ''ac2''
     (Map.empty, example_earlier_db) =
   (Inr 0,
    Map.empty (key1 ''getActionCountInLastHour'' ''ac2'' \<mapsto>
      \<lparr>data = 0, entry_tags = [''actionClasses-ac2''], stored_at = example_earlier\<rparr>),
    example_earlier_db\<lparr>queries := [Count]\<rparr>)"
  by (simp add: getActionCountInLastHour_def unstable_cache_def
        getActionCountInLastHour_fn_def validateInputs_def example_config_def
        prisma_action_count_def prisma_call_def Let_def matches_def anyAction_def
        actionClass_opts_def example_tags_def
        example_earlier_db_def example_earlier_def example_db_def example_action_def
        example_now_def)

text \<open>
  C2, as stated, fails. Ten seconds before the clock of the examples no action of the
  class \<open>ac2\<close> is in the database, and \<^verbatim>\<open>getActionCountInLastHour\<close> returns \<open>0\<close>. Then
  an action of the class is created; the call at the clock of the examples, answered from
  the cache, returns \<open>0\<close> again, and the last hour holds one action of the class.
\<close>

theorem action_counts_in_window_counterexample:
  "ZId example_config ''ac2'' \<and>
   fault example_db = None \<and>
   fst (getActionCountInLastHour example_config example_tags example_now ''ac2''
          (fst (snd (getActionCountInLastHour example_config example_tags example_earlier
                       ''ac2'' (Map.empty, example_earlier_db))),
           example_db)) = Inr 0 \<and>
   number_of_actions example_db
     (\<lambda>a. a_actionClassId a = ''ac2'' \<and> example_now - 3600000 \<le> a_createdAt a) = 1"
proof -
  have "fst (getActionCountInLastHour example_config example_tags example_now ''ac2''
          (fst (snd (getActionCountInLastHour example_config example_tags example_earlier
                       ''ac2'' (Map.empty, example_earlier_db))),
           example_db)) = Inr 0"
    by (simp only: example_earlier_hour snd_conv fst_conv)
       (simp add: getActionCountInLastHour_entry)
  moreover have "number_of_actions example_db
     (\<lambda>a. a_actionClassId a = ''ac2'' \<and> example_now - 3600000 \<le> a_createdAt a) = 1"
    by (simp add: number_of_actions_def example_db_def example_action_def)
  moreover have "ZId example_config ''ac2''"
    by (simp add: example_config_def)
  moreover have "fault example_db = None"
    by (simp add: example_db_def)
  ultimately show ?thesis by simp
qed

section \<open>Validation comes first\<close>

lemma fst_deserialize:
  "fst (deserialize r) =
     (case fst r of Inl e \<Rightarrow> Inl e | Inr actions \<Rightarrow> Inr (map formatDateFields actions))"
  by (simp add: deserialize_def split: prod.splits sum.splits)

lemma rejectsI:
  assumes "\<And>d. cb d = (Inl ValidationError, d)"
  shows "rejects (unstable_cache j cb k opts now) k"
  unfolding rejects_def
proof (intro allI conjI impI)
  fix c :: "'a cache" and d
  show "snd (unstable_cache j cb k opts now (c, d)) = (c, d)"
    by (simp add: unstable_cache_def assms split: option.splits)
  assume "c k = None"
  then show "fst (unstable_cache j cb k opts now (c, d)) = Inl ValidationError"
    by (simp add: fst_unstable_cache_no_entry assms)
qed

lemma rejects_deserialize:
  assumes "rejects call k"
  shows "rejects (\<lambda>st. deserialize (call st)) k"
  unfolding rejects_def
proof (intro allI conjI impI)
  fix c :: "TAction list cache" and d
  from assms have same: "snd (call (c, d)) = (c, d)"
    by (simp add: rejects_def)
  then show "snd (deserialize (call (c, d))) = (c, d)"
    by (cases "call (c, d)") (auto simp add: deserialize_def split: sum.splits)
  assume "c k = None"
  with assms have "fst (call (c, d)) = Inl ValidationError"
    by (simp add: rejects_def)
  then show "fst (deserialize (call (c, d))) = Inl ValidationError"
    by (simp add: fst_deserialize)
qed

lemma list_fn_invalid:
  "\<not> (ZId cfg ident \<and> ZOptionalNumber cfg page) \<Longrightarrow>
   list_fn rt cfg ident page w d = (Inl ValidationError, d)"
  by (auto simp add: list_fn_def validateInputs_def)

lemma count_since_fn_invalid:
  "\<not> (ZId cfg cid \<and> ZId cfg pid) \<Longrightarrow>
   count_since_fn cfg t cid pid d = (Inl ValidationError, d)"
  by (auto simp add: count_since_fn_def validateInputs_def)

lemma occurrence_fn_invalid:
  "\<not> (ZId cfg cid \<and> ZId cfg pid) \<Longrightarrow>
   occurrence_fn rt cfg ord now cid pid d = (Inl ValidationError, d)"
  by (auto simp add: occurrence_fn_def validateInputs_def)

lemma getTotalOccurrencesForAction_fn_invalid:
  "\<not> (ZId cfg cid \<and> ZId cfg pid) \<Longrightarrow>
   getTotalOccurrencesForAction_fn cfg cid pid d = (Inl ValidationError, d)"
  by (auto simp add: getTotalOccurrencesForAction_fn_def validateInputs_def)

lemma count_fns_invalid:
  "\<not> ZId cfg cid \<Longrightarrow> getActionCountInLastHour_fn cfg now cid d = (Inl ValidationError, d)"
  "\<not> ZId cfg cid \<Longrightarrow> getActionCountInLast24Hours_fn cfg now cid d = (Inl ValidationError, d)"
  "\<not> ZId cfg cid \<Longrightarrow> getActionCountInLast7Days_fn cfg now cid d = (Inl ValidationError, d)"
  by (simp_all add: getActionCountInLastHour_fn_def getActionCountInLast24Hours_fn_def
        getActionCountInLast7Days_fn_def validateInputs_def)

lemma createAction_invalid:
  "\<not> ZActionInput cfg input \<Longrightarrow>
   createAction cfg tg sv newId now input w = (Inl ValidationError, w)"
  by (simp add: createAction_def validateInputs_def)

lemma list_rejects:
  assumes "\<not> (ZId cfg ident \<and> ZOptionalNumber cfg page)"
  shows "rejects (\<lambda>st. deserialize (unstable_cache json_TActions (list_fn rt cfg ident page w)
                          k opts now st)) k"
  by (rule rejects_deserialize, rule rejectsI) (rule list_fn_invalid [OF assms])

text \<open>
  C3. Every operation of the action service validates before anything else. When an id or
  the page fails its schema, a read leaves the cache and the database as they were,
  issues no query and, unless a cached entry answers it, throws the validation error; when
  the data of \<^verbatim>\<open>createAction\<close> fails \<^verbatim>\<open>ZActionInput\<close>, the call throws the validation
  error and leaves the database and the revalidated tags as they were.
\<close>

theorem validation_before_database:
  "(\<not> (ZId cfg personId \<and> ZOptionalNumber cfg page) \<longrightarrow>
      rejects (getActionsByPersonId rt cfg tg now personId page)
        (getActionsByPersonId_key personId (show_optional rt page))) \<and>
   (\<not> (ZId cfg environmentId \<and> ZOptionalNumber cfg page) \<longrightarrow>
      rejects (getActionsByEnvironmentId rt cfg tg now environmentId page)
        (getActionsByEnvironmentId_key environmentId (show_optional rt page))) \<and>
   (\<not> ZActionInput cfg input \<longrightarrow>
      createAction cfg tg sv newId now input w = (Inl ValidationError, w)) \<and>
   (\<not> ZId cfg actionClassId \<longrightarrow>
      rejects (getActionCountInLastHour cfg tg now actionClassId)
        (key1 ''getActionCountInLastHour'' actionClassId) \<and>
      rejects (getActionCountInLast24Hours cfg tg now actionClassId)
        (key1 ''getActionCountInLast24Hours'' actionClassId) \<and>
      rejects (getActionCountInLast7Days cfg tg now actionClassId)
        (key1 ''getActionCountInLast7Days'' actionClassId)) \<and>
   (\<not> (ZId cfg actionClassId \<and> ZId cfg personId) \<longrightarrow>
      rejects (getActionCountInLastQuarter cfg tg sd now actionClassId personId)
        (key2 ''getActionCountInLastQuarter'' actionClassId personId) \<and>
      rejects (getActionCountInLastMonth cfg tg sd now actionClassId personId)
        (key2 ''getActionCountInLastMonth'' actionClassId personId) \<and>
      rejects (getActionCountInLastWeek cfg tg sd now actionClassId personId)
        (key2 ''getActionCountInLastWeek'' actionClassId personId) \<and>
      rejects (getTotalOccurrencesForAction cfg tg now actionClassId personId)
        (key2 ''getTotalOccurrencesForAction'' actionClassId personId) \<and>
      rejects (getLastOccurrenceDaysAgo rt cfg tg now actionClassId personId)
        (key2 ''getLastOccurrenceDaysAgo'' actionClassId personId) \<and>
      rejects (getFirstOccurrenceDaysAgo rt cfg tg now actionClassId personId)
        (key2 ''getFirstOccurrenceDaysAgo'' actionClassId personId))"
proof (intro conjI impI)
  assume "\<not> (ZId cfg personId \<and> ZOptionalNumber cfg page)"
  then show "rejects (getActionsByPersonId rt cfg tg now personId page)
        (getActionsByPersonId_key personId (show_optional rt page))"
    unfolding getActionsByPersonId_def [abs_def] getActionsByPersonId_fn_def
    by (rule list_rejects)
next
  assume "\<not> (ZId cfg environmentId \<and> ZOptionalNumber cfg page)"
  then show "rejects (getActionsByEnvironmentId rt cfg tg now environmentId page)
        (getActionsByEnvironmentId_key environmentId (show_optional rt page))"
    unfolding getActionsByEnvironmentId_def [abs_def] getActionsByEnvironmentId_fn_def
    by (rule list_rejects)
next
  assume "\<not> ZActionInput cfg input"
  then show "createAction cfg tg sv newId now input w = (Inl ValidationError, w)"
    by (rule createAction_invalid)
next
  assume invalid: "\<not> ZId cfg actionClassId"
  show "rejects (getActionCountInLastHour cfg tg now actionClassId)
        (key1 ''getActionCountInLastHour'' actionClassId)"
    unfolding getActionCountInLastHour_def
    by (rule rejectsI) (rule count_fns_invalid(1) [OF invalid])
  show "rejects (getActionCountInLast24Hours cfg tg now actionClassId)
        (key1 ''getActionCountInLast24Hours'' actionClassId)"
    unfolding getActionCountInLast24Hours_def
    by (rule rejectsI) (rule count_fns_invalid(2) [OF invalid])
  show "rejects (getActionCountInLast7Days cfg tg now actionClassId)
        (key1 ''getActionCountInLast7Days'' actionClassId)"
    unfolding getActionCountInLast7Days_def
    by (rule rejectsI) (rule count_fns_invalid(3) [OF invalid])
next
  assume invalid: "\<not> (ZId cfg actionClassId \<and> ZId cfg personId)"
  show "rejects (getActionCountInLastQuarter cfg tg sd now actionClassId personId)
        (key2 ''getActionCountInLastQuarter'' actionClassId personId)"
    unfolding getActionCountInLastQuarter_def
    by (rule rejectsI) (rule count_since_fn_invalid [OF invalid])
  show "rejects (getActionCountInLastMonth cfg tg sd now actionClassId personId)
        (key2 ''getActionCountInLastMonth'' actionClassId personId)"
    unfolding getActionCountInLastMonth_def
    by (rule rejectsI) (rule count_since_fn_invalid [OF invalid])
  show "rejects (getActionCountInLastWeek cfg tg sd now actionClassId personId)
        (key2 ''getActionCountInLastWeek'' actionClassId personId)"
    unfolding getActionCountInLastWeek_def
    by (rule rejectsI) (rule count_since_fn_invalid [OF invalid])
  show "rejects (getTotalOccurrencesForAction cfg tg now actionClassId personId)
        (key2 ''getTotalOccurrencesForAction'' actionClassId personId)"
    unfolding getTotalOccurrencesForAction_def
    by (rule rejectsI) (rule getTotalOccurrencesForAction_fn_invalid [OF invalid])
  show "rejects (getLastOccurrenceDaysAgo rt cfg tg now actionClassId personId)
        (key2 ''getLastOccurrenceDaysAgo'' actionClassId personId)"
    unfolding getLastOccurrenceDaysAgo_def
    by (rule rejectsI) (rule occurrence_fn_invalid [OF invalid])
  show "rejects (getFirstOccurrenceDaysAgo rt cfg tg now actionClassId personId)
        (key2 ''getFirstOccurrenceDaysAgo'' actionClassId personId)"
    unfolding getFirstOccurrenceDaysAgo_def
    by (rule rejectsI) (rule occurrence_fn_invalid [OF invalid])
qed

theorem validation_before_database_witness:
  "\<not> ZId example_config ''no-id'' \<and>
   \<not> ZOptionalNumber example_config (Some NaN) \<and>
   \<not> ZActionInput example_config
       \<lparr>in_environmentId = ''env1'', in_userId = ''user1'', in_name = []\<rparr> \<and>
   getActionsByPersonId example_runtime example_config example_tags example_now ''no-id'' None
     (Map.empty, example_db) = (Inl ValidationError, Map.empty, example_db) \<and>
   getActionsByPersonId example_runtime example_config example_tags example_now ''p1''
     (Some NaN) (Map.empty, example_db) = (Inl ValidationError, Map.empty, example_db) \<and>
   getActionsByEnvironmentId example_runtime example_config example_tags example_now ''no-id''
     None (Map.empty, example_db) = (Inl ValidationError, Map.empty, example_db) \<and>
   getActionCountInLastHour example_config example_tags example_now ''no-id''
     (Map.empty, example_db) = (Inl ValidationError, Map.empty, example_db) \<and>
   getActionCountInLastWeek example_config example_tags example_startDates example_now
     ''no-id'' ''no-id'' (Map.empty, example_db) = (Inl ValidationError, Map.empty, example_db) \<and>
   getLastOccurrenceDaysAgo example_runtime example_config example_tags example_now ''no-id''
     ''no-id'' (Map.empty, example_db) = (Inl ValidationError, Map.empty, example_db) \<and>
   createAction example_config example_tags example_services ''a6'' example_now
     \<lparr>in_environmentId = ''env1'', in_userId = ''user1'', in_name = []\<rparr>
     \<lparr>db = example_db, revalidatedTags = []\<rparr> =
     (Inl ValidationError, \<lparr>db = example_db, revalidatedTags = []\<rparr>)"
proof -
  have invalid: "\<not> ZId example_config ''no-id''"
    by (simp add: example_config_def)
  have invalid_page: "\<not> ZOptionalNumber example_config (Some NaN)"
    by (simp add: example_config_def)
  have invalid': "\<not> ZActionInput example_config
       \<lparr>in_environmentId = ''env1'', in_userId = ''user1'', in_name = []\<rparr>"
    by (simp add: example_config_def)
  have whole: "\<And>call k (d :: database).
      rejects call k \<Longrightarrow> call (Map.empty, d) = (Inl ValidationError, Map.empty, d)"
    by (simp add: rejects_def prod_eq_iff)
  note all = validation_before_database [where cfg = example_config and tg = example_tags
      and now = example_now and sd = example_startDates and sv = example_services
      and newId = "''a6''" and w = "\<lparr>db = example_db, revalidatedTags = []\<rparr>"
      and input = "\<lparr>in_environmentId = ''env1'', in_userId = ''user1'', in_name = []\<rparr>"
      and personId = "''no-id''" and environmentId = "''no-id''"
      and actionClassId = "''no-id''" and page = None and rt = example_runtime]
  note page = validation_before_database [where cfg = example_config and tg = example_tags
      and now = example_now and personId = "''p1''" and page = "Some NaN"
      and rt = example_runtime, THEN conjunct1]
  from all invalid
  have "rejects (getActionsByPersonId example_runtime example_config example_tags example_now
                   ''no-id'' None)
      (getActionsByPersonId_key ''no-id'' (show_optional example_runtime None))"
    by simp
  then have person: "getActionsByPersonId example_runtime example_config example_tags
     example_now ''no-id'' None (Map.empty, example_db) =
       (Inl ValidationError, Map.empty, example_db)"
    by (rule whole)
  from page invalid_page
  have "rejects (getActionsByPersonId example_runtime example_config example_tags example_now
                   ''p1'' (Some NaN))
      (getActionsByPersonId_key ''p1'' (show_optional example_runtime (Some NaN)))"
    by simp
  then have person_page: "getActionsByPersonId example_runtime example_config example_tags
     example_now ''p1'' (Some NaN) (Map.empty, example_db) =
       (Inl ValidationError, Map.empty, example_db)"
    by (rule whole)
  from all invalid
  have "rejects (getActionsByEnvironmentId example_runtime example_config example_tags
                   example_now ''no-id'' None)
      (getActionsByEnvironmentId_key ''no-id'' (show_optional example_runtime None))"
    by simp
  then have environment: "getActionsByEnvironmentId example_runtime example_config
     example_tags example_now ''no-id'' None (Map.empty, example_db) =
       (Inl ValidationError, Map.empty, example_db)"
    by (rule whole)
  from all invalid
  have "rejects (getActionCountInLastHour example_config example_tags example_now ''no-id'')
      (key1 ''getActionCountInLastHour'' ''no-id'')"
    by simp
  then have hour: "getActionCountInLastHour example_config example_tags example_now ''no-id''
     (Map.empty, example_db) = (Inl ValidationError, Map.empty, example_db)"
    by (rule whole)
  from all invalid
  have "rejects (getActionCountInLastWeek example_config example_tags example_startDates
                   example_now ''no-id'' ''no-id'')
      (key2 ''getActionCountInLastWeek'' ''no-id'' ''no-id'')"
    by simp
  then have week: "getActionCountInLastWeek example_config example_tags example_startDates
     example_now ''no-id'' ''no-id'' (Map.empty, example_db) =
       (Inl ValidationError, Map.empty, example_db)"
    by (rule whole)
  from all invalid
  have "rejects (getLastOccurrenceDaysAgo example_runtime example_config example_tags
                   example_now ''no-id'' ''no-id'')
      (key2 ''getLastOccurrenceDaysAgo'' ''no-id'' ''no-id'')"
    by simp
  then have last: "getLastOccurrenceDaysAgo example_runtime example_config example_tags
     example_now ''no-id'' ''no-id'' (Map.empty, example_db) =
       (Inl ValidationError, Map.empty, example_db)"
    by (rule whole)
  from all invalid'
  have create: "createAction example_config example_tags example_services ''a6'' example_now
     \<lparr>in_environmentId = ''env1'', in_userId = ''user1'', in_name = []\<rparr>
     \<lparr>db = example_db, revalidatedTags = []\<rparr> =
     (Inl ValidationError, \<lparr>db = example_db, revalidatedTags = []\<rparr>)"
    by simp
  from invalid invalid_page invalid' person person_page environment hour week last create
  show ?thesis
    by simp
qed

section \<open>The tags that createAction revalidates\<close>

lemma createAction_try_throws:
  "createAction_try tg sv newId now input w = (Inl e, w') \<Longrightarrow>
   revalidatedTags w' = revalidatedTags w"
  unfolding createAction_try_def Let_def
  by (fastforce split: prod.splits sum.splits)

lemma createAction_try_returns:
  assumes "createAction_try tg sv newId now input w = (Inr a, w')"
  shows "\<exists>active d3.
           getIsPersonMonthlyActive sv (t_personId a) d3 = (Inr active, db w') \<and>
           revalidatedTags w' =
             revalidatedTags w @
             (if active then [] else [activePersonCache_tag_byId tg (t_personId a)]) @
             [actionCache_tag_byEnvironmentId tg (in_environmentId input),
              actionCache_tag_byPersonId tg (t_personId a)]"
  using assms
  unfolding createAction_try_def Let_def actionCache_revalidate_def
    activePersonCache_revalidate_def revalidateTag_def
  by (fastforce split: prod.splits sum.splits)

text \<open>
  C4. A call of \<^verbatim>\<open>createAction\<close> that returns an action has revalidated, after the tags
  revalidated before it, the tag of the active-person cache for the person of the action
  exactly when \<^verbatim>\<open>getIsPersonMonthlyActive\<close> answered false for that person, then the action
  cache tags of the environment of the input and of the person of the action, and no
  other tag. A call that throws has revalidated no tag.
\<close>

theorem createAction_revalidates:
  "(\<forall>a w'. createAction cfg tg sv newId now input w = (Inr a, w') \<longrightarrow>
      (\<exists>active d3.
         getIsPersonMonthlyActive sv (t_personId a) d3 = (Inr active, db w') \<and>
         revalidatedTags w' =
           revalidatedTags w @
           (if active then [] else [activePersonCache_tag_byId tg (t_personId a)]) @
           [actionCache_tag_byEnvironmentId tg (in_environmentId input),
            actionCache_tag_byPersonId tg (t_personId a)])) \<and>
   (\<forall>e w'. createAction cfg tg sv newId now input w = (Inl e, w') \<longrightarrow>
      revalidatedTags w' = revalidatedTags w)"
proof (intro conjI allI impI)
  fix a w'
  assume "createAction cfg tg sv newId now input w = (Inr a, w')"
  then have "createAction_try tg sv newId now input w = (Inr a, w')"
    by (auto simp add: createAction_def split: sum.splits prod.splits)
  then show "\<exists>active d3.
         getIsPersonMonthlyActive sv (t_personId a) d3 = (Inr active, db w') \<and>
         revalidatedTags w' =
           revalidatedTags w @
           (if active then [] else [activePersonCache_tag_byId tg (t_personId a)]) @
           [actionCache_tag_byEnvironmentId tg (in_environmentId input),
            actionCache_tag_byPersonId tg (t_personId a)]"
    by (rule createAction_try_returns)
next
  fix e w'
  assume thrown: "createAction cfg tg sv newId now input w = (Inl e, w')"
  show "revalidatedTags w' = revalidatedTags w"
  proof (cases "validateInputs [ZActionInput cfg input]")
    case (Inl v)
    with thrown show ?thesis by (simp add: createAction_def)
  next
    case (Inr u)
    with thrown obtain e0 where "createAction_try tg sv newId now input w = (Inl e0, w')"
      by (auto simp add: createAction_def split: sum.splits prod.splits)
    then show ?thesis by (rule createAction_try_throws)
  qed
qed

lemma example_created:
  "fst (createAction example_config example_tags example_services ''a6'' example_now
          (example_input ''user1'' ''Sign Up'') example_world) =
     Inr \<lparr>t_id = ''a6'', t_createdAt = DateObj example_now, t_personId = ''p1'',
          t_properties = [],
          t_actionClass = Some \<lparr>ac_id = ''ac1'', ac_name = ''Sign Up'', ac_type = TypeCode,
                                 ac_environmentId = ''env1''\<rparr>\<rparr>"
  by (simp add: createAction_def createAction_try_def validateInputs_def example_config_def
        example_services_def example_input_def example_world_def example_db_def
        prisma_action_create_def find_actionClass_def Let_def)

lemma example_not_created:
  "fst (createAction example_config example_tags example_services ''a6'' example_now
          (example_input ''user9'' ''Sign Up'') example_world) =
     Inl (DatabaseError ''Database operation failed'')"
  by (simp add: createAction_def createAction_try_def validateInputs_def example_config_def
        example_services_def example_input_def example_world_def example_db_def
        prisma_action_create_def find_actionClass_def Let_def catch_prisma_def)

theorem createAction_revalidates_witness:
  "fst (createAction example_config example_tags example_services ''a6'' example_now
          (example_input ''user1'' ''Sign Up'') example_world) =
     Inr \<lparr>t_id = ''a6'', t_createdAt = DateObj example_now, t_personId = ''p1'',
          t_properties = [],
          t_actionClass = Some \<lparr>ac_id = ''ac1'', ac_name = ''Sign Up'', ac_type = TypeCode,
                                 ac_environmentId = ''env1''\<rparr>\<rparr> \<and>
   revalidatedTags (snd (createAction example_config example_tags example_services ''a6''
      example_now (example_input ''user1'' ''Sign Up'') example_world)) =
     [''activePerson-p1'', ''environments-env1-actions'', ''persons-p1-actions''] \<and>
   fst (createAction example_config example_tags example_services ''a6'' example_now
          (example_input ''user9'' ''Sign Up'') example_world) =
     Inl (DatabaseError ''Database operation failed'') \<and>
   revalidatedTags (snd (createAction example_config example_tags example_services ''a6''
      example_now (example_input ''user9'' ''Sign Up'') example_world)) = []"
proof -
  let ?ok = "createAction example_config example_tags example_services ''a6'' example_now
          (example_input ''user1'' ''Sign Up'') example_world"
  let ?bad = "createAction example_config example_tags example_services ''a6'' example_now
          (example_input ''user9'' ''Sign Up'') example_world"
  obtain a w1 where ok: "?ok = (Inr a, w1)" and person: "t_personId a = ''p1''"
    using example_created by (cases ?ok) simp
  from createAction_revalidates [of example_config example_tags example_services "''a6''"
      example_now "example_input ''user1'' ''Sign Up''" example_world] ok
  obtain active d3 where
    active: "getIsPersonMonthlyActive example_services (t_personId a) d3 = (Inr active, db w1)"
    and tags: "revalidatedTags w1 =
           revalidatedTags example_world @
           (if active then [] else [activePersonCache_tag_byId example_tags (t_personId a)]) @
           [actionCache_tag_byEnvironmentId example_tags
              (in_environmentId (example_input ''user1'' ''Sign Up'')),
            actionCache_tag_byPersonId example_tags (t_personId a)]"
    by blast
  from active person have "\<not> active"
    by (simp add: example_services_def)
  with tags person have "revalidatedTags w1 =
      [''activePerson-p1'', ''environments-env1-actions'', ''persons-p1-actions'']"
    by (simp add: example_world_def example_tags_def example_input_def)
  with ok have returned: "revalidatedTags (snd ?ok) =
      [''activePerson-p1'', ''environments-env1-actions'', ''persons-p1-actions'']"
    by simp
  obtain e w2 where bad: "?bad = (Inl e, w2)"
    using example_not_created by (cases ?bad) simp
  from createAction_revalidates [of example_config example_tags example_services "''a6''"
      example_now "example_input ''user9'' ''Sign Up''" example_world] bad
  have "revalidatedTags w2 = revalidatedTags example_world"
    by blast
  with bad have thrown: "revalidatedTags (snd ?bad) = []"
    by (simp add: example_world_def)
  from example_created returned example_not_created thrown show ?thesis
    by (intro conjI)
qed

section \<open>The foreign keys are kept\<close>

text \<open>A created action refers to a person and an action class of the tables.\<close>

lemma find_mem_not_None: "x \<in> set xs \<Longrightarrow> P x \<Longrightarrow> find P xs \<noteq> None"
  by (auto simp add: find_None_iff)

lemma prisma_action_create_keys:
  assumes "foreign_keys_ok d"
  shows "foreign_keys_ok (snd (prisma_action_create environmentId userId actionClassId newId now d))"
proof (cases "fault d")
  case (Some e)
  with assms show ?thesis
    by (simp add: prisma_action_create_def Let_def foreign_keys_ok_def find_actionClass_def
          find_person_def)
next
  case None
  show ?thesis
  proof (cases "find (\<lambda>p. p_environmentId p = environmentId \<and> p_userId p = userId) (personTable d)")
    case no_person: None
    with None assms show ?thesis
      by (simp add: prisma_action_create_def Let_def foreign_keys_ok_def find_actionClass_def
            find_person_def)
  next
    case (Some p)
    then have "p \<in> set (personTable d)"
      by (auto simp add: find_Some_iff)
    then have person: "find (\<lambda>q. p_id q = p_id p) (personTable d) \<noteq> None"
      by (rule find_mem_not_None) simp
    show ?thesis
    proof (cases "find_actionClass d actionClassId")
      case no_class: None
      with None Some assms show ?thesis
        by (simp add: prisma_action_create_def Let_def foreign_keys_ok_def find_actionClass_def
              find_person_def)
    next
      case found: (Some c)
      then have "c \<in> set (actionClassTable d)"
        by (auto simp add: find_actionClass_def find_Some_iff)
      then have cls: "find (\<lambda>q. ac_id q = ac_id c) (actionClassTable d) \<noteq> None"
        by (rule find_mem_not_None) simp
      from None Some found assms person cls show ?thesis
        by (simp add: prisma_action_create_def Let_def foreign_keys_ok_def find_actionClass_def
              find_person_def)
    qed
  qed
qed

section \<open>Relations between the counts and the occurrences\<close>

lemma number_of_actions_mono:
  "(\<And>a. P a \<Longrightarrow> Q a) \<Longrightarrow> number_of_actions d P \<le> number_of_actions d Q"
  unfolding number_of_actions_def
  by (induction "actionTable d" arbitrary: d) (auto intro: sum_list_mono)

lemma int_div_diff:
  fixes l r D :: int
  assumes "0 < D"
  shows "(l - r) div D = l div D - r div D - (if l mod D < r mod D then 1 else 0)"
proof (cases "l mod D < r mod D")
  case True
  have "l - r = D * (l div D - r div D - 1) + (D + l mod D - r mod D)"
    using mult_div_mod_eq [of D l] mult_div_mod_eq [of D r] by (simp add: algebra_simps)
  moreover have "0 \<le> D + l mod D - r mod D"
    using assms pos_mod_sign [of D l] pos_mod_bound [of D r] by linarith
  moreover have "D + l mod D - r mod D < D"
    using True by linarith
  ultimately have "(l - r) div D = l div D - r div D - 1"
    by (rule int_div_pos_eq)
  with True show ?thesis by simp
next
  case False
  have "l - r = D * (l div D - r div D) + (l mod D - r mod D)"
    using mult_div_mod_eq [of D l] mult_div_mod_eq [of D r] by (simp add: algebra_simps)
  moreover have "0 \<le> l mod D - r mod D"
    using False by linarith
  moreover have "l mod D - r mod D < D"
    using assms pos_mod_bound [of D l] pos_mod_sign [of D r] by linarith
  ultimately have "(l - r) div D = l div D - r div D"
    by (rule int_div_pos_eq)
  with False show ?thesis by simp
qed

lemma differenceInDays_full_days:
  "differenceInDays rt dateLeft dateRight =
     (if localTime rt dateRight \<le> localTime rt dateLeft
      then (localTime rt dateLeft - localTime rt dateRight) div 86400000
      else - ((localTime rt dateRight - localTime rt dateLeft) div 86400000))"
proof -
  let ?l = "localTime rt dateLeft" and ?r = "localTime rt dateRight"
  let ?D = "86400000 :: int"
  have lm: "?l mod ?D = ?l - ?D * (?l div ?D)"
    by (rule minus_mult_div_eq_mod [symmetric])
  have rm: "?r mod ?D = ?r - ?D * (?r div ?D)"
    by (rule minus_mult_div_eq_mod [symmetric])
  consider "?r < ?l" | "?l = ?r" | "?l < ?r" by linarith
  then show ?thesis
  proof cases
    case 1
    from 1 have "?r div ?D \<le> ?l div ?D" by (simp add: zdiv_mono1)
    then have abs: "\<bar>differenceInCalendarDays ?l ?r\<bar> = ?l div ?D - ?r div ?D"
      by (simp add: differenceInCalendarDays_def)
    have "?l - (?l div ?D - ?r div ?D) * ?D < ?r \<longleftrightarrow> ?l mod ?D < ?r mod ?D"
      unfolding lm rm by (simp add: algebra_simps)
    with 1 show ?thesis
      unfolding differenceInDays_def Let_def abs
      by (auto simp add: compareLocalAsc_def int_div_diff algebra_simps)
  next
    case 2
    then show ?thesis
      by (simp add: differenceInDays_def Let_def compareLocalAsc_def)
  next
    case 3
    from 3 have "?l div ?D \<le> ?r div ?D" by (simp add: zdiv_mono1)
    then have abs: "\<bar>differenceInCalendarDays ?l ?r\<bar> = ?r div ?D - ?l div ?D"
      by (simp add: differenceInCalendarDays_def)
    have "?r < ?l + (?r div ?D - ?l div ?D) * ?D \<longleftrightarrow> ?r mod ?D < ?l mod ?D"
      unfolding lm rm by (simp add: algebra_simps)
    with 3 show ?thesis
      unfolding differenceInDays_def Let_def abs
      by (auto simp add: compareLocalAsc_def int_div_diff algebra_simps)
  qed
qed

lemma differenceInDays_antimono:
  assumes "localTime rt t1 \<le> localTime rt t2"
  shows "differenceInDays rt now t2 \<le> differenceInDays rt now t1"
proof -
  let ?k = "86400000 :: int"
  let ?n = "localTime rt now" and ?a = "localTime rt t1" and ?b = "localTime rt t2"
  consider "?b \<le> ?n" | "?n < ?b" "?a \<le> ?n" | "?n < ?a"
    using assms by linarith
  then show ?thesis
  proof cases
    case 1
    with assms have "?a \<le> ?n" and "(?n - ?b) div ?k \<le> (?n - ?a) div ?k"
      by (simp_all add: zdiv_mono1)
    with 1 show ?thesis by (simp add: differenceInDays_full_days)
  next
    case 2
    then have "0 \<le> (?b - ?n) div ?k" and "0 \<le> (?n - ?a) div ?k"
      by (simp_all add: pos_imp_zdiv_nonneg_iff)
    with 2 show ?thesis by (simp add: differenceInDays_full_days)
  next
    case 3
    with assms have "?n < ?b" and "(?a - ?n) div ?k \<le> (?b - ?n) div ?k"
      by (simp_all add: zdiv_mono1)
    with 3 show ?thesis by (simp add: differenceInDays_full_days)
  qed
qed

lemma sort_key_head_least:
  assumes "sort_key f xs = y # ys" and "x \<in> set xs"
  shows "f y \<le> f x"
proof -
  have "sorted (map f (sort_key f xs))" by simp
  with assms(1) have "\<forall>z \<in> set ys. f y \<le> f z" by simp
  moreover have "x \<in> set (sort_key f xs)" using assms(2) by simp
  ultimately show ?thesis using assms(1) by auto
qed

lemma sort_key_head_mem: "sort_key f xs = y # ys \<Longrightarrow> y \<in> set xs"
  by (metis list.set_intros(1) set_sort)

lemma sort_key_Nil_iff: "sort_key f xs = [] \<longleftrightarrow> xs = []"
  by (metis length_sort length_0_conv)

lemma prisma_action_findFirst_works:
  "fault d = None \<Longrightarrow>
   fst (prisma_action_findFirst w ord d) =
     Inr (case orderBy ord (filter (matches d w) (actionTable d)) of
            [] \<Rightarrow> None | a # _ \<Rightarrow> Some (a_createdAt a))"
  by (simp add: prisma_action_findFirst_def prisma_call_def Let_def)

lemma occurrence_fn_works:
  assumes "ZId cfg cid" and "ZId cfg pid" and "fault d = None"
  shows "fst (occurrence_fn rt cfg ord now cid pid d) =
           Inr (case orderBy (Some ord) (filter (matches d (personActions cid pid)) (actionTable d)) of
                  [] \<Rightarrow> None
                | a # _ \<Rightarrow> Some (differenceInDays rt now (a_createdAt a)))"
proof -
  obtain r d' where r: "prisma_action_findFirst (personActions cid pid) (Some ord) d = (r, d')"
    by (cases "prisma_action_findFirst (personActions cid pid) (Some ord) d")
  with prisma_action_findFirst_works [OF assms(3), of "personActions cid pid" "Some ord"]
  have "r = Inr (case orderBy (Some ord) (filter (matches d (personActions cid pid)) (actionTable d)) of
                   [] \<Rightarrow> None | a # _ \<Rightarrow> Some (a_createdAt a))"
    by simp
  with r assms(1,2) show ?thesis
    by (simp add: occurrence_fn_def validateInputs_def split: list.splits)
qed

lemma getTotalOccurrencesForAction_works:
  assumes "ZId cfg cid" and "ZId cfg pid" and "fault d = None"
      and "c (key2 ''getTotalOccurrencesForAction'' cid pid) = None"
  shows "fst (getTotalOccurrencesForAction cfg tg now cid pid (c, d)) =
           Inr (length (filter (matches d (personActions cid pid)) (actionTable d)))"
  using assms
  by (simp add: getTotalOccurrencesForAction_def fst_unstable_cache_no_entry
        getTotalOccurrencesForAction_fn_def validateInputs_def prisma_action_count_works)

lemma personActions_rows:
  assumes "foreign_keys_ok d"
  shows "length (filter (matches d (personActions cid pid)) (actionTable d)) =
           number_of_actions d (\<lambda>a. a_personId a = pid \<and> a_actionClassId a = cid)"
proof -
  have "filter (matches d (personActions cid pid)) (actionTable d) =
        filter (\<lambda>a. a_personId a = pid \<and> a_actionClassId a = cid) (actionTable d)"
    by (rule filter_cong) (simp_all add: matches_personActions assms)
  then show ?thesis by (simp add: count_rows)
qed

lemma first_before_last:
  assumes "orderBy (Some Desc) xs = l # ls" and "orderBy (Some Asc) xs = f # fs"
  shows "a_createdAt f \<le> a_createdAt l"
proof -
  from assms(1) have "l \<in> set xs"
    by (simp add: orderBy_def sort_key_head_mem)
  with assms(2) show ?thesis
    by (simp add: orderBy_def sort_key_head_least)
qed

lemma orderBy_Nil_iff: "orderBy ord xs = [] \<longleftrightarrow> xs = []"
  by (simp add: orderBy_def sort_key_Nil_iff split: option.splits sortOrder.splits)

lemma first_row_None_iff:
  "(case orderBy ord xs of [] \<Rightarrow> None | a # _ \<Rightarrow> Some (g a)) = None \<longleftrightarrow> length xs = 0"
proof (cases "orderBy ord xs")
  case Nil
  then have "xs = []" by (simp add: orderBy_Nil_iff)
  then show ?thesis unfolding Nil by simp
next
  case (Cons a as)
  then have "xs \<noteq> []" using orderBy_Nil_iff [of ord xs] by auto
  then show ?thesis unfolding Cons by simp
qed

text \<open>
  C9, as amended. For one database state and clock, valid ids, a working database whose
  foreign keys hold and calls for which the cache holds no entry: the count of the last
  hour is at most the count of the last 24 hours, which is at most the count of the last
  7 days; the last and the first occurrence are null exactly when the total of
  occurrences is 0, that is when the person has no action of the class; and when both are
  numbers and the local clock of the runtime is never set back, the days since the last
  occurrence are at most the days since the first.
\<close>

theorem counts_and_occurrences_related:
  assumes valid: "ZId cfg actionClassId" "ZId cfg personId"
      and works: "fault d = None"
      and keys: "foreign_keys_ok d"
      and no_entry:
        "c (key1 ''getActionCountInLastHour'' actionClassId) = None"
        "c (key1 ''getActionCountInLast24Hours'' actionClassId) = None"
        "c (key1 ''getActionCountInLast7Days'' actionClassId) = None"
        "c (key2 ''getTotalOccurrencesForAction'' actionClassId personId) = None"
        "c' (key2 ''getLastOccurrenceDaysAgo'' actionClassId personId) = None"
        "c' (key2 ''getFirstOccurrenceDaysAgo'' actionClassId personId) = None"
  shows
    "(\<exists>h t w.
        fst (getActionCountInLastHour cfg tg now actionClassId (c, d)) = Inr h \<and>
        fst (getActionCountInLast24Hours cfg tg now actionClassId (c, d)) = Inr t \<and>
        fst (getActionCountInLast7Days cfg tg now actionClassId (c, d)) = Inr w \<and>
        h \<le> t \<and> t \<le> w) \<and>
     (\<exists>n l f.
        fst (getTotalOccurrencesForAction cfg tg now actionClassId personId (c, d)) = Inr n \<and>
        fst (getLastOccurrenceDaysAgo rt cfg tg now actionClassId personId (c', d)) = Inr l \<and>
        fst (getFirstOccurrenceDaysAgo rt cfg tg now actionClassId personId (c', d)) = Inr f \<and>
        (l = None \<longleftrightarrow> n = 0) \<and> (f = None \<longleftrightarrow> n = 0) \<and>
        (n = 0 \<longleftrightarrow>
           number_of_actions d
             (\<lambda>a. a_personId a = personId \<and> a_actionClassId a = actionClassId) = 0) \<and>
        ((\<forall>s t. s \<le> t \<longrightarrow> localTime rt s \<le> localTime rt t) \<longrightarrow>
           (\<forall>x y. l = Some x \<and> f = Some y \<longrightarrow> x \<le> y)))"
proof -
  let ?hour = "number_of_actions d
                 (\<lambda>a. a_actionClassId a = actionClassId \<and> now - 3600000 \<le> a_createdAt a)"
  let ?day = "number_of_actions d
                (\<lambda>a. a_actionClassId a = actionClassId \<and> now - 86400000 \<le> a_createdAt a)"
  let ?week = "number_of_actions d
                 (\<lambda>a. a_actionClassId a = actionClassId \<and> now - 604800000 \<le> a_createdAt a)"
  have "?hour \<le> ?day" and "?day \<le> ?week"
    by (rule number_of_actions_mono, simp)+
  then have counts: "\<exists>h t w.
        fst (getActionCountInLastHour cfg tg now actionClassId (c, d)) = Inr h \<and>
        fst (getActionCountInLast24Hours cfg tg now actionClassId (c, d)) = Inr t \<and>
        fst (getActionCountInLast7Days cfg tg now actionClassId (c, d)) = Inr w \<and>
        h \<le> t \<and> t \<le> w"
    using getActionCountInLastHour_works [where c = c, OF valid(1) works no_entry(1)]
      getActionCountInLast24Hours_works [where c = c, OF valid(1) works no_entry(2)]
      getActionCountInLast7Days_works [where c = c, OF valid(1) works no_entry(3)]
    by simp
  let ?rows = "filter (matches d (personActions actionClassId personId)) (actionTable d)"
  let ?n = "length ?rows"
  let ?l = "case orderBy (Some Desc) ?rows of
              [] \<Rightarrow> None | a # _ \<Rightarrow> Some (differenceInDays rt now (a_createdAt a))"
  let ?f = "case orderBy (Some Asc) ?rows of
              [] \<Rightarrow> None | a # _ \<Rightarrow> Some (differenceInDays rt now (a_createdAt a))"
  have total: "fst (getTotalOccurrencesForAction cfg tg now actionClassId personId (c, d)) = Inr ?n"
    by (rule getTotalOccurrencesForAction_works [where c = c, OF valid works no_entry(4)])
  have last: "fst (getLastOccurrenceDaysAgo rt cfg tg now actionClassId personId (c', d)) = Inr ?l"
    using no_entry(5)
    by (simp add: getLastOccurrenceDaysAgo_def fst_unstable_cache_no_entry
          occurrence_fn_works [OF valid works])
  have first: "fst (getFirstOccurrenceDaysAgo rt cfg tg now actionClassId personId (c', d)) = Inr ?f"
    using no_entry(6)
    by (simp add: getFirstOccurrenceDaysAgo_def fst_unstable_cache_no_entry
          occurrence_fn_works [OF valid works])
  have l_null: "?l = None \<longleftrightarrow> ?n = 0"
    by (rule first_row_None_iff)
  have f_null: "?f = None \<longleftrightarrow> ?n = 0"
    by (rule first_row_None_iff)
  have none: "?n = 0 \<longleftrightarrow>
      number_of_actions d (\<lambda>a. a_personId a = personId \<and> a_actionClassId a = actionClassId) = 0"
    by (simp only: personActions_rows [OF keys])
  have order: "(\<forall>s t. s \<le> t \<longrightarrow> localTime rt s \<le> localTime rt t) \<longrightarrow>
      (\<forall>x y. ?l = Some x \<and> ?f = Some y \<longrightarrow> x \<le> y)"
  proof (intro allI impI)
    fix x y
    assume clock: "\<forall>s t. s \<le> t \<longrightarrow> localTime rt s \<le> localTime rt t"
    assume xy: "?l = Some x \<and> ?f = Some y"
    then obtain a as where a: "orderBy (Some Desc) ?rows = a # as"
      by (cases "orderBy (Some Desc) ?rows") simp_all
    from xy obtain b bs where b: "orderBy (Some Asc) ?rows = b # bs"
      by (cases "orderBy (Some Asc) ?rows") simp_all
    from a b have "a_createdAt b \<le> a_createdAt a" by (rule first_before_last)
    with clock have "localTime rt (a_createdAt b) \<le> localTime rt (a_createdAt a)" by simp
    then have "differenceInDays rt now (a_createdAt a) \<le> differenceInDays rt now (a_createdAt b)"
      by (rule differenceInDays_antimono)
    with xy a b show "x \<le> y" by simp
  qed
  have occ: "fst (getTotalOccurrencesForAction cfg tg now actionClassId personId (c, d)) = Inr ?n \<and>
        fst (getLastOccurrenceDaysAgo rt cfg tg now actionClassId personId (c', d)) = Inr ?l \<and>
        fst (getFirstOccurrenceDaysAgo rt cfg tg now actionClassId personId (c', d)) = Inr ?f \<and>
        (?l = None \<longleftrightarrow> ?n = 0) \<and> (?f = None \<longleftrightarrow> ?n = 0) \<and>
        (?n = 0 \<longleftrightarrow>
           number_of_actions d
             (\<lambda>a. a_personId a = personId \<and> a_actionClassId a = actionClassId) = 0) \<and>
        ((\<forall>s t. s \<le> t \<longrightarrow> localTime rt s \<le> localTime rt t) \<longrightarrow>
           (\<forall>x y. ?l = Some x \<and> ?f = Some y \<longrightarrow> x \<le> y))"
    by (intro conjI) (fact total last first l_null f_null none order)+
  have "\<exists>n l f.
        fst (getTotalOccurrencesForAction cfg tg now actionClassId personId (c, d)) = Inr n \<and>
        fst (getLastOccurrenceDaysAgo rt cfg tg now actionClassId personId (c', d)) = Inr l \<and>
        fst (getFirstOccurrenceDaysAgo rt cfg tg now actionClassId personId (c', d)) = Inr f \<and>
        (l = None \<longleftrightarrow> n = 0) \<and> (f = None \<longleftrightarrow> n = 0) \<and>
        (n = 0 \<longleftrightarrow>
           number_of_actions d
             (\<lambda>a. a_personId a = personId \<and> a_actionClassId a = actionClassId) = 0) \<and>
        ((\<forall>s t. s \<le> t \<longrightarrow> localTime rt s \<le> localTime rt t) \<longrightarrow>
           (\<forall>x y. l = Some x \<and> f = Some y \<longrightarrow> x \<le> y))"
    by (rule exI [of _ ?n], rule exI [of _ ?l], rule exI [of _ ?f]) (rule occ)
  with counts show ?thesis by (rule conjI)
qed

lemma example_runtime_clock: "localTime example_runtime t = t"
  by (simp add: localTime_def example_runtime_def)

lemma example_person_class_rows:
  "filter (matches example_db (personActions ''ac1'' ''p1'')) (actionTable example_db) =
     [example_action ''a1'' 7200000 ''p1'' ''ac1'', example_action ''a2'' 1000 ''p1'' ''ac1'',
      example_action ''a4'' 864000000 ''p1'' ''ac1'']"
  by (simp add: example_db_def example_action_def matches_def personActions_def anyAction_def
        find_actionClass_def)

theorem counts_and_occurrences_related_witness:
  "ZId example_config ''ac1'' \<and> ZId example_config ''p1'' \<and> fault example_db = None \<and>
   foreign_keys_ok example_db \<and>
   fst (getActionCountInLastHour example_config example_tags example_now ''ac1''
          (Map.empty, example_db)) = Inr 1 \<and>
   fst (getActionCountInLast24Hours example_config example_tags example_now ''ac1''
          (Map.empty, example_db)) = Inr 2 \<and>
   fst (getActionCountInLast7Days example_config example_tags example_now ''ac1''
          (Map.empty, example_db)) = Inr 3 \<and>
   fst (getTotalOccurrencesForAction example_config example_tags example_now ''ac1'' ''p1''
          (Map.empty, example_db)) = Inr 3 \<and>
   fst (getLastOccurrenceDaysAgo example_runtime example_config example_tags example_now
          ''ac1'' ''p1'' (Map.empty, example_db)) = Inr (Some 0) \<and>
   fst (getFirstOccurrenceDaysAgo example_runtime example_config example_tags example_now
          ''ac1'' ''p1'' (Map.empty, example_db)) = Inr (Some 10) \<and>
   localTime example_runtime 0 \<le> localTime example_runtime 1"
proof -
  have valid: "ZId example_config ''ac1''" "ZId example_config ''p1''"
    by (simp_all add: example_config_def)
  have works: "fault example_db = None"
    by (simp add: example_db_def)
  have no_entry: "\<And>k. (Map.empty :: nat cache) k = None"
    by simp
  have no_entry': "\<And>k. (Map.empty :: int option cache) k = None"
    by simp
  note rows = example_person_class_rows
  have total: "fst (getTotalOccurrencesForAction example_config example_tags example_now
          ''ac1'' ''p1'' (Map.empty, example_db)) = Inr 3"
    by (simp add: getTotalOccurrencesForAction_works [where c = Map.empty, OF valid works no_entry] rows)
  have last: "fst (getLastOccurrenceDaysAgo example_runtime example_config example_tags
          example_now ''ac1'' ''p1'' (Map.empty, example_db)) = Inr (Some 0)"
    by (simp add: getLastOccurrenceDaysAgo_def fst_unstable_cache_no_entry [where c = Map.empty, OF no_entry']
          occurrence_fn_works [OF valid works] rows orderBy_def example_action_def
          differenceInDays_full_days example_runtime_clock)
  have first: "fst (getFirstOccurrenceDaysAgo example_runtime example_config example_tags
          example_now ''ac1'' ''p1'' (Map.empty, example_db)) = Inr (Some 10)"
    by (simp add: getFirstOccurrenceDaysAgo_def fst_unstable_cache_no_entry [where c = Map.empty, OF no_entry']
          occurrence_fn_works [OF valid works] rows orderBy_def example_action_def
          differenceInDays_full_days example_runtime_clock)
  have hour: "fst (getActionCountInLastHour example_config example_tags example_now ''ac1''
          (Map.empty, example_db)) = Inr 1"
    by (simp only: getActionCountInLastHour_works [where c = Map.empty, OF valid(1) works no_entry])
      (simp add: number_of_actions_def example_db_def example_action_def example_now_def)
  have day: "fst (getActionCountInLast24Hours example_config example_tags example_now ''ac1''
          (Map.empty, example_db)) = Inr 2"
    by (simp only: getActionCountInLast24Hours_works [where c = Map.empty, OF valid(1) works no_entry])
      (simp add: number_of_actions_def example_db_def example_action_def example_now_def)
  have week: "fst (getActionCountInLast7Days example_config example_tags example_now ''ac1''
          (Map.empty, example_db)) = Inr 3"
    by (simp only: getActionCountInLast7Days_works [where c = Map.empty, OF valid(1) works no_entry])
      (simp add: number_of_actions_def example_db_def example_action_def example_now_def)
  have clock: "localTime example_runtime 0 \<le> localTime example_runtime 1"
    by (simp add: example_runtime_clock)
  from counts_and_occurrences_related [where c = Map.empty and c' = Map.empty
      and tg = example_tags and now = example_now and rt = example_runtime,
      OF valid works example_db_keys no_entry no_entry no_entry no_entry no_entry' no_entry']
  show ?thesis
    using valid works example_db_keys hour day week total last first clock
    by simp
qed

lemma example_earlier_day:
  "fst (snd (getActionCountInLast24Hours example_config example_tags example_earlier ''ac2''
               (Map.empty, example_earlier_db))) =
   Map.empty (key1 ''getActionCountInLast24Hours'' ''ac2'' \<mapsto>
     \<lparr>data = 0, entry_tags = [''actionClasses-ac2''], stored_at = example_earlier\<rparr>)"
  by (simp add: getActionCountInLast24Hours_def unstable_cache_def
        getActionCountInLast24Hours_fn_def validateInputs_def example_config_def
        prisma_action_count_def prisma_call_def Let_def matches_def anyAction_def
        actionClass_opts_def example_tags_def
        example_earlier_db_def example_earlier_def example_db_def example_action_def
        example_now_def)

lemma example_dst_rows:
  "filter (matches example_dst_db (personActions ''ac1'' ''p1'')) (actionTable example_dst_db) =
     actionTable example_dst_db"
  by (simp add: example_dst_db_def example_db_def matches_def personActions_def anyAction_def
        find_actionClass_def)

text \<open>
  C9, as stated, fails twice. First, with one database, one clock and one cache: ten
  seconds before the clock of the examples no action of the class \<open>ac2\<close> is in the
  database and \<^verbatim>\<open>getActionCountInLast24Hours\<close> returns \<open>0\<close>, which the cache keeps; then
  an action of the class is created, and at the clock of the examples the count of the
  last hour is \<open>1\<close> and the count of the last 24 hours, answered from the cache, is \<open>0\<close>.
  Second, with no cache entry: the person's first action is a quarter of an hour before
  the local clock is set back by an hour and the last action a quarter of an hour after;
  two days and half an hour after the change the last occurrence is \<open>2\<close> days ago and the
  first occurrence \<open>1\<close> day ago.
\<close>

theorem counts_and_occurrences_related_counterexample:
  "ZId example_config ''ac2'' \<and> ZId example_config ''ac1'' \<and> ZId example_config ''p1'' \<and>
   fault example_db = None \<and> fault example_dst_db = None \<and>
   fst (getActionCountInLastHour example_config example_tags example_now ''ac2''
          (fst (snd (getActionCountInLast24Hours example_config example_tags example_earlier
                       ''ac2'' (Map.empty, example_earlier_db))),
           example_db)) = Inr 1 \<and>
   fst (getActionCountInLast24Hours example_config example_tags example_now ''ac2''
          (fst (snd (getActionCountInLast24Hours example_config example_tags example_earlier
                       ''ac2'' (Map.empty, example_earlier_db))),
           example_db)) = Inr 0 \<and>
   fst (getLastOccurrenceDaysAgo example_dst_runtime example_config example_tags
          example_dst_now ''ac1'' ''p1'' (Map.empty, example_dst_db)) = Inr (Some 2) \<and>
   fst (getFirstOccurrenceDaysAgo example_dst_runtime example_config example_tags
          example_dst_now ''ac1'' ''p1'' (Map.empty, example_dst_db)) = Inr (Some 1)"
proof -
  have valid: "ZId example_config ''ac2''" "ZId example_config ''ac1''"
      "ZId example_config ''p1''"
    by (simp_all add: example_config_def)
  have works: "fault example_db = None" "fault example_dst_db = None"
    by (simp_all add: example_dst_db_def example_db_def)
  have hour: "fst (getActionCountInLastHour example_config example_tags example_now ''ac2''
          (fst (snd (getActionCountInLast24Hours example_config example_tags example_earlier
                       ''ac2'' (Map.empty, example_earlier_db))),
           example_db)) = Inr 1"
    by (simp only: example_earlier_day)
       (simp add: getActionCountInLastHour_works valid works key1_def
          number_of_actions_def example_db_def example_action_def example_now_def)
  have day: "fst (getActionCountInLast24Hours example_config example_tags example_now ''ac2''
          (fst (snd (getActionCountInLast24Hours example_config example_tags example_earlier
                       ''ac2'' (Map.empty, example_earlier_db))),
           example_db)) = Inr 0"
    by (simp only: example_earlier_day) (simp add: getActionCountInLast24Hours_entry)
  have last: "fst (getLastOccurrenceDaysAgo example_dst_runtime example_config example_tags
          example_dst_now ''ac1'' ''p1'' (Map.empty, example_dst_db)) = Inr (Some 2)"
    by (simp add: getLastOccurrenceDaysAgo_def fst_unstable_cache_no_entry
          occurrence_fn_works [OF valid(2,3) works(2)] example_dst_rows)
       (simp add: example_dst_db_def orderBy_def differenceInDays_full_days localTime_def
          example_dst_runtime_def example_dst_now_def example_change_def)
  have first: "fst (getFirstOccurrenceDaysAgo example_dst_runtime example_config example_tags
          example_dst_now ''ac1'' ''p1'' (Map.empty, example_dst_db)) = Inr (Some 1)"
    by (simp add: getFirstOccurrenceDaysAgo_def fst_unstable_cache_no_entry
          occurrence_fn_works [OF valid(2,3) works(2)] example_dst_rows)
       (simp add: example_dst_db_def orderBy_def differenceInDays_full_days localTime_def
          example_dst_runtime_def example_dst_now_def example_change_def)
  from valid works hour day last first show ?thesis
    by simp
qed

section \<open>Cache keys, tags and intervals\<close>



lemma digit_not_hyphen: "n < (10::nat) \<Longrightarrow> (char_of (48 + n) :: char) \<noteq> CHR ''-''"
  by (simp add: char_of_eq_iff take_bit_eq_mod)


lemma show_nat_small: "n < 10 \<Longrightarrow> show_nat n = [char_of (48 + n)]"
  by (simp add: show_nat.simps)

lemma show_nat_large:
  "\<not> n < 10 \<Longrightarrow> show_nat n = show_nat (n div 10) @ [char_of (48 + n mod 10)]"
  by (subst show_nat.simps) simp


lemma show_nat_digits: "c \<in> set (show_nat n) \<Longrightarrow> \<exists>k::nat. k < 10 \<and> c = char_of (48 + k)"
proof (induction n arbitrary: c rule: show_nat.induct)
  case (1 n)
  show ?case
  proof (cases "n < 10")
    case True
    with "1.prems" show ?thesis by (auto simp add: show_nat_small)
  next
    case False
    with "1.prems" consider "c \<in> set (show_nat (n div 10))" | "c = char_of (48 + n mod 10)"
      by (auto simp add: show_nat_large)
    then show ?thesis
    proof cases
      case 1
      with False show ?thesis by (rule "1.IH")
    next
      case 2
      moreover have "n mod 10 < 10" by simp
      ultimately show ?thesis by blast
    qed
  qed
qed

lemma no_hyphen_show_nat: "no_hyphen (show_nat n)"
  unfolding no_hyphen_def
proof
  assume "CHR ''-'' \<in> set (show_nat n)"
  then obtain k :: nat where "k < 10" and "CHR ''-'' = (char_of (48 + k) :: char)"
    using show_nat_digits by blast
  then show False using digit_not_hyphen [of k] by simp
qed













text \<open>Each operation passes to the framework cache the key list and the options of its call.\<close>

lemma operations_invoke_cache:
  "canUserAccessWebhook cfg tg getWebhook hasAccess now userId webhookId cb =
     (case unstable_cache (\<lambda>v. v)
             (\<lambda>u. (canUserAccessWebhook_fn cfg getWebhook hasAccess userId webhookId, u))
             (keyParts_of (CanUserAccessWebhook userId webhookId))
             (options_of cfg tg (CanUserAccessWebhook userId webhookId)) now (cb, ()) of
        (r, c', _) \<Rightarrow> (r, c'))"
  "canUserAccessAttributeClass cfg getAttributeClass hasAccess now userId attributeClassId cb =
     (case unstable_cache (\<lambda>v. v)
             (\<lambda>u. (canUserAccessAttributeClass_fn cfg getAttributeClass hasAccess userId
                      attributeClassId, u))
             (keyParts_of (CanUserAccessAttributeClass userId attributeClassId))
             (options_of cfg tg (CanUserAccessAttributeClass userId attributeClassId))
             now (cb, ()) of
        (r, c', _) \<Rightarrow> (r, c'))"
  "getActionCountInLastHour cfg tg now actionClassId =
     unstable_cache (\<lambda>v. v) (getActionCountInLastHour_fn cfg now actionClassId)
       (keyParts_of (GetActionCountInLastHour actionClassId))
       (options_of cfg tg (GetActionCountInLastHour actionClassId)) now"
  "getActionCountInLast24Hours cfg tg now actionClassId =
     unstable_cache (\<lambda>v. v) (getActionCountInLast24Hours_fn cfg now actionClassId)
       (keyParts_of (GetActionCountInLast24Hours actionClassId))
       (options_of cfg tg (GetActionCountInLast24Hours actionClassId)) now"
  "getActionCountInLast7Days cfg tg now actionClassId =
     unstable_cache (\<lambda>v. v) (getActionCountInLast7Days_fn cfg now actionClassId)
       (keyParts_of (GetActionCountInLast7Days actionClassId))
       (options_of cfg tg (GetActionCountInLast7Days actionClassId)) now"
  "getActionCountInLastQuarter cfg tg sd now actionClassId personId =
     unstable_cache (\<lambda>v. v)
       (count_since_fn cfg (getStartDateOfLastQuarter sd now) actionClassId personId)
       (keyParts_of (GetActionCountInLastQuarter actionClassId personId))
       (options_of cfg tg (GetActionCountInLastQuarter actionClassId personId)) now"
  "getActionCountInLastMonth cfg tg sd now actionClassId personId =
     unstable_cache (\<lambda>v. v)
       (count_since_fn cfg (getStartDateOfLastMonth sd now) actionClassId personId)
       (keyParts_of (GetActionCountInLastMonth actionClassId personId))
       (options_of cfg tg (GetActionCountInLastMonth actionClassId personId)) now"
  "getActionCountInLastWeek cfg tg sd now actionClassId personId =
     unstable_cache (\<lambda>v. v)
       (count_since_fn cfg (getStartDateOfLastWeek sd now) actionClassId personId)
       (keyParts_of (GetActionCountInLastWeek actionClassId personId))
       (options_of cfg tg (GetActionCountInLastWeek actionClassId personId)) now"
  "getTotalOccurrencesForAction cfg tg now actionClassId personId =
     unstable_cache (\<lambda>v. v) (getTotalOccurrencesForAction_fn cfg actionClassId personId)
       (keyParts_of (GetTotalOccurrencesForAction actionClassId personId))
       (options_of cfg tg (GetTotalOccurrencesForAction actionClassId personId)) now"
  "getLastOccurrenceDaysAgo rt cfg tg now actionClassId personId =
     unstable_cache (\<lambda>v. v) (occurrence_fn rt cfg Desc now actionClassId personId)
       (keyParts_of (GetLastOccurrenceDaysAgo actionClassId personId))
       (options_of cfg tg (GetLastOccurrenceDaysAgo actionClassId personId)) now"
  "getFirstOccurrenceDaysAgo rt cfg tg now actionClassId personId =
     unstable_cache (\<lambda>v. v) (occurrence_fn rt cfg Asc now actionClassId personId)
       (keyParts_of (GetFirstOccurrenceDaysAgo actionClassId personId))
       (options_of cfg tg (GetFirstOccurrenceDaysAgo actionClassId personId)) now"
  "sendFreeLimitReachedEventToPosthogBiWeekly capture now environmentId p =
     unstable_cache (\<lambda>v. v)
       (\<lambda>s. case capture environmentId ''free limit reached'' p s of
               (Inl e, s') \<Rightarrow> (Inl e, s')
             | (Inr _, s') \<Rightarrow> (Inr ''success'', s'))
       (keyParts_of (SendFreeLimitReachedEventToPosthogBiWeekly environmentId p))
       (options_of cfg tg (SendFreeLimitReachedEventToPosthogBiWeekly environmentId p)) now"
  by (simp_all add: canUserAccessWebhook_def canUserAccessAttributeClass_def
        getActionCountInLastHour_def
        getActionCountInLast24Hours_def getActionCountInLast7Days_def
        getActionCountInLastQuarter_def getActionCountInLastMonth_def
        getActionCountInLastWeek_def getTotalOccurrencesForAction_def
        getLastOccurrenceDaysAgo_def getFirstOccurrenceDaysAgo_def
        sendFreeLimitReachedEventToPosthogBiWeekly_def)

text \<open>
  The list operations take a number for the page; for a page that is \<^verbatim>\<open>undefined\<close> or a
  natural number up to \<open>2 ^ 53\<close> the template string renders it as \<open>show_page\<close> does.
\<close>

lemma show_optional_natural:
  assumes "case page of None \<Rightarrow> True | Some n \<Rightarrow> n \<le> 2 ^ 53"
  shows "show_optional rt (natural page) = show_page page"
proof (cases page)
  case None
  then show ?thesis by (simp add: show_optional_def natural_def show_page_def)
next
  case (Some n)
  with assms have "n \<le> 2 ^ 53" by simp
  then have "n < 10 ^ 21" by simp
  then have "(of_nat n :: rat) < 10 ^ 21"
    by (metis of_nat_less_iff of_nat_numeral of_nat_power)
  with Some show ?thesis
    by (simp add: show_optional_def natural_def show_page_def show_number_def whole_def)
qed

lemma list_operations_invoke_cache:
  assumes "case page of None \<Rightarrow> True | Some n \<Rightarrow> n \<le> 2 ^ 53"
  shows
    "getActionsByPersonId rt cfg tg now personId (natural page) sa =
       deserialize (unstable_cache json_TActions
         (getActionsByPersonId_fn rt cfg personId (natural page))
         (keyParts_of (GetActionsByPersonId personId page))
         (options_of cfg tg (GetActionsByPersonId personId page)) now sa)"
    "getActionsByEnvironmentId rt cfg tg now environmentId (natural page) sa =
       deserialize (unstable_cache json_TActions
         (getActionsByEnvironmentId_fn rt cfg environmentId (natural page))
         (keyParts_of (GetActionsByEnvironmentId environmentId page))
         (options_of cfg tg (GetActionsByEnvironmentId environmentId page)) now sa)"
  by (simp_all add: getActionsByPersonId_def getActionsByEnvironmentId_def
        show_optional_natural [OF assms])






end
